theory Spec2Isabelle
  imports Complex_Main "HOL-Library.Word"
begin

section \<open>Numbers and vectors\<close>

text \<open>
  A JavaScript number is modelled as a real, so rounding is left out: the atlas arithmetic of
  the source adds, subtracts and multiplies small integers and halves and divides by the
  atlas size, and the rotation of a document element takes the sine and cosine of an angle.
  A \<^verbatim>\<open>Vector2\<close> is a pair, a \<^verbatim>\<open>Vector3\<close> a triple.
\<close>

type_synonym vec2 = "real \<times> real"
type_synonym vec3 = "real \<times> real \<times> real"

section \<open>Face-UV projector (\<^verbatim>\<open>setUVs\<close>, \<^verbatim>\<open>setSkinUVs\<close>, \<^verbatim>\<open>setCapeUVs\<close>)\<close>

text \<open>
  The arrow function \<^verbatim>\<open>toFaceVertices\<close> inside \<^verbatim>\<open>setUVs\<close>; it closes over the texture size.
\<close>

definition toFaceVertices :: "real \<Rightarrow> real \<Rightarrow> real \<Rightarrow> real \<Rightarrow> real \<Rightarrow> real \<Rightarrow> vec2 list" where
  "toFaceVertices textureWidth textureHeight x1 y1 x2 y2 =
     [(x1 / textureWidth, 1 - y2 / textureHeight),
      (x2 / textureWidth, 1 - y2 / textureHeight),
      (x2 / textureWidth, 1 - y1 / textureHeight),
      (x1 / textureWidth, 1 - y1 / textureHeight)]"

text \<open>
  \<^verbatim>\<open>setUVs\<close> overwrites the box's \<^verbatim>\<open>uv\<close> attribute with 24 vectors, four per face, in the
  order right, left, top, bottom, front, back. The model returns the new attribute.
\<close>

definition setUVs :: "real \<Rightarrow> real \<Rightarrow> real \<Rightarrow> real \<Rightarrow> real \<Rightarrow> real \<Rightarrow> real \<Rightarrow> vec2 list" where
  "setUVs u v width height depth textureWidth textureHeight =
     (let tfv = toFaceVertices textureWidth textureHeight;
          top = tfv (u + depth) v (u + width + depth) (v + depth);
          bottom = tfv (u + width + depth) v (u + width * 2 + depth) (v + depth);
          left = tfv u (v + depth) (u + depth) (v + depth + height);
          front = tfv (u + depth) (v + depth) (u + width + depth) (v + depth + height);
          right = tfv (u + width + depth) (v + depth) (u + width + depth * 2) (v + height + depth);
          back = tfv (u + width + depth * 2) (v + depth) (u + width * 2 + depth * 2) (v + height + depth)
      in [right ! 3, right ! 2, right ! 0, right ! 1,
          left ! 3, left ! 2, left ! 0, left ! 1,
          top ! 3, top ! 2, top ! 0, top ! 1,
          bottom ! 0, bottom ! 1, bottom ! 3, bottom ! 2,
          front ! 3, front ! 2, front ! 0, front ! 1,
          back ! 3, back ! 2, back ! 0, back ! 1])"

definition setSkinUVs :: "real \<Rightarrow> real \<Rightarrow> real \<Rightarrow> real \<Rightarrow> real \<Rightarrow> vec2 list" where
  "setSkinUVs u v width height depth = setUVs u v width height depth 64 64"

definition setCapeUVs :: "real \<Rightarrow> real \<Rightarrow> real \<Rightarrow> real \<Rightarrow> real \<Rightarrow> vec2 list" where
  "setCapeUVs u v width height depth = setUVs u v width height depth 64 32"

subsection \<open>Reading a uv attribute back in pixel space\<close>

text \<open>
  The \<open>i\<close>-th face of a uv attribute is its \<open>i\<close>-th group of four vectors
  (0 right, 1 left, 2 top, 3 bottom, 4 front, 5 back).
\<close>

definition uvFace :: "vec2 list \<Rightarrow> nat \<Rightarrow> vec2 list" where
  "uvFace uvs i = take 4 (drop (4 * i) uvs)"

text \<open>
  Un-normalising a uv vector: multiply by the texture size and flip the v axis back.
\<close>

definition toPixel :: "real \<Rightarrow> real \<Rightarrow> vec2 \<Rightarrow> vec2" where
  "toPixel textureWidth textureHeight p = (fst p * textureWidth, (1 - snd p) * textureHeight)"

text \<open>
  The pixel rectangle of a face: the bounding box \<open>(xmin, ymin, xmax, ymax)\<close> of its
  vertices in pixel space.
\<close>

definition pixelRect :: "real \<Rightarrow> real \<Rightarrow> vec2 list \<Rightarrow> real \<times> real \<times> real \<times> real" where
  "pixelRect textureWidth textureHeight q =
     (let ps = map (toPixel textureWidth textureHeight) q
      in (Min (set (map fst ps)), Min (set (map snd ps)),
          Max (set (map fst ps)), Max (set (map snd ps))))"

definition inCanvas :: "real \<Rightarrow> real \<Rightarrow> real \<times> real \<times> real \<times> real \<Rightarrow> bool" where
  "inCanvas textureWidth textureHeight r =
     (case r of (xmin, ymin, xmax, ymax) \<Rightarrow>
        0 \<le> xmin \<and> xmax \<le> textureWidth \<and> 0 \<le> ymin \<and> ymax \<le> textureHeight)"

text \<open>Two rectangles overlap when they share a region of positive area.\<close>

definition rectOverlap :: "real \<times> real \<times> real \<times> real \<Rightarrow> real \<times> real \<times> real \<times> real \<Rightarrow> bool" where
  "rectOverlap r s =
     (case r of (ax1, ay1, ax2, ay2) \<Rightarrow> case s of (bx1, by1, bx2, by2) \<Rightarrow>
        ax1 < bx2 \<and> bx1 < ax2 \<and> ay1 < by2 \<and> by1 < ay2)"

definition skinFaceRect :: "real \<Rightarrow> real \<Rightarrow> real \<Rightarrow> real \<Rightarrow> real \<Rightarrow> nat \<Rightarrow> real \<times> real \<times> real \<times> real" where
  "skinFaceRect u v width height depth i =
     pixelRect 64 64 (uvFace (setSkinUVs u v width height depth) i)"

definition skinFacesInCanvas :: "real \<Rightarrow> real \<Rightarrow> real \<Rightarrow> real \<Rightarrow> real \<Rightarrow> bool" where
  "skinFacesInCanvas u v width height depth =
     list_all (\<lambda>i. inCanvas 64 64 (skinFaceRect u v width height depth i)) [0..<6]"

definition skinFacesDisjoint :: "real \<Rightarrow> real \<Rightarrow> real \<Rightarrow> real \<Rightarrow> real \<Rightarrow> bool" where
  "skinFacesDisjoint u v width height depth =
     list_all (\<lambda>i. list_all (\<lambda>j. i = j \<or>
        \<not> rectOverlap (skinFaceRect u v width height depth i) (skinFaceRect u v width height depth j))
        [0..<6]) [0..<6]"

section \<open>Elytra (\<^verbatim>\<open>ElytraObject\<close>)\<close>

text \<open>
  Of a wing group only the position and the Euler rotation matter here.
\<close>

record object3d =
  position :: vec3
  rotation :: vec3

record ElytraObject =
  leftWing :: object3d
  rightWing :: object3d

definition updateRightWing :: "ElytraObject \<Rightarrow> ElytraObject" where
  "updateRightWing e =
     (case position (leftWing e) of (lpx, lpy, lpz) \<Rightarrow>
      case rotation (leftWing e) of (lrx, lry, lrz) \<Rightarrow>
      case position (rightWing e) of (rpx, rpy, rpz) \<Rightarrow>
        e\<lparr>rightWing := (rightWing e)\<lparr>position := (- lpx, lpy, rpz), rotation := (lrx, - lry, - lrz)\<rparr>\<rparr>)"

section \<open>Back equipment (\<^verbatim>\<open>PlayerObject.backEquipment\<close>)\<close>

datatype BackEquipment = Cape | Elytra

text \<open>
  The accessor pair reads and writes the \<^verbatim>\<open>visible\<close> flags of the cape and of the elytra;
  the value \<^verbatim>\<open>null\<close> is \<open>None\<close>.
\<close>

record backState =
  capeVisible :: bool
  elytraVisible :: bool

definition getBackEquipment :: "backState \<Rightarrow> BackEquipment option" where
  "getBackEquipment p =
     (if capeVisible p then Some Cape
      else if elytraVisible p then Some Elytra
      else None)"

definition setBackEquipment :: "BackEquipment option \<Rightarrow> backState \<Rightarrow> backState" where
  "setBackEquipment v p = p\<lparr>capeVisible := (v = Some Cape), elytraVisible := (v = Some Elytra)\<rparr>"

section \<open>Free-form face UVs of the cuboid-model format (\<^verbatim>\<open>rotateArray\<close>, \<^verbatim>\<open>setJsonUVs\<close>)\<close>

text \<open>
  The exceptions the modelled code can throw: a \<^verbatim>\<open>TypeError\<close> when a property of
  \<^verbatim>\<open>undefined\<close> is read, and the \<^verbatim>\<open>IndexSizeError\<close> of the canvas for a pixel rectangle
  without pixels. A fallible function returns \<open>Inl\<close> of the exception or \<open>Inr\<close> of its result.
\<close>

datatype error = TypeError | IndexSizeError

definition bindE :: "error + 'a \<Rightarrow> ('a \<Rightarrow> error + 'b) \<Rightarrow> error + 'b" where
  "bindE r f = (case r of Inl e \<Rightarrow> Inl e | Inr x \<Rightarrow> f x)"

text \<open>
  Reading a JavaScript array at an index: \<^verbatim>\<open>undefined\<close> (here \<open>None\<close>) outside
  \<open>0 .. length - 1\<close>.
\<close>

definition js_index :: "'a list \<Rightarrow> int \<Rightarrow> 'a option" where
  "js_index xs k = (if 0 \<le> k \<and> k < int (length xs) then Some (xs ! nat k) else None)"

text \<open>The \<^verbatim>\<open>%\<close> operator on integers: the remainder takes the sign of the dividend.\<close>

definition js_rem :: "int \<Rightarrow> int \<Rightarrow> int" where
  "js_rem a b = sgn a * (\<bar>a\<bar> mod \<bar>b\<bar>)"

text \<open>
  \<^verbatim>\<open>rotateArray\<close> copies the array, then overwrites position \<open>i\<close> with the copy's entry at
  \<^verbatim>\<open>(i + shift) % arr.length\<close>. The model returns the overwritten array.
\<close>

definition rotateArray :: "'a list \<Rightarrow> int \<Rightarrow> 'a option list" where
  "rotateArray arr shift =
     map (\<lambda>i. js_index arr (js_rem (int i + shift) (int (length arr)))) [0..<length arr]"

text \<open>
  A face of a document element: its \<^verbatim>\<open>uv\<close> rectangle \<^verbatim>\<open>[x1, y1, x2, y2]\<close> and its
  \<^verbatim>\<open>rotation\<close>. A document is parsed JSON, so either property can be missing (\<open>None\<close>).
\<close>

record face =
  uv :: "(real \<times> real \<times> real \<times> real) option"
  frotation :: "real option"

text \<open>
  The arrow function \<^verbatim>\<open>toFaceVertices\<close> inside \<^verbatim>\<open>setJsonUVs\<close> of \<^verbatim>\<open>src/unnamed/part_000\<close>.
  Reading \<^verbatim>\<open>face.uv[0]\<close> throws when the face or its \<^verbatim>\<open>uv\<close> is missing. An absent rotation
  is taken as 0, and the four vertices are rotated by \<^verbatim>\<open>Math.floor(face.rotation / 90)\<close>.
\<close>

definition toFaceVerticesJson :: "face option \<Rightarrow> error + vec2 option list" where
  "toFaceVerticesJson fc =
     (case fc of
        None \<Rightarrow> Inl TypeError
      | Some f \<Rightarrow>
          (case uv f of
             None \<Rightarrow> Inl TypeError
           | Some (uv0, uv1, uv2, uv3) \<Rightarrow>
               let result = [(uv0 / 16, 1 - uv3 / 16),
                             (uv2 / 16, 1 - uv3 / 16),
                             (uv2 / 16, 1 - uv1 / 16),
                             (uv0 / 16, 1 - uv1 / 16)];
                   r = (case frotation f of None \<Rightarrow> 0 | Some r \<Rightarrow> r)
               in Inr (rotateArray result \<lfloor>r / 90\<rfloor>)))"

text \<open>The \<^verbatim>\<open>faces\<close> object of an element; each of its six properties can be missing.\<close>

record faces =
  north :: "face option"
  east :: "face option"
  south :: "face option"
  west :: "face option"
  up :: "face option"
  down :: "face option"

text \<open>
  \<^verbatim>\<open>setJsonUVs\<close> of \<^verbatim>\<open>src/unnamed/part_000\<close> overwrites the box's \<^verbatim>\<open>uv\<close> attribute; the
  result is the new content of the attribute, one entry per vertex. Reading
  \<^verbatim>\<open>faceUVs.north\<close> throws when the \<^verbatim>\<open>faces\<close> object itself is missing. The source's
  locals \<^verbatim>\<open>nth\<close>, \<^verbatim>\<open>up\<close> and \<^verbatim>\<open>down\<close> are \<open>nrth\<close>, \<open>upf\<close> and \<open>dwn\<close> here.
\<close>

definition setJsonUVs :: "faces option \<Rightarrow> error + vec2 option list" where
  "setJsonUVs faceUVs =
     (case faceUVs of
        None \<Rightarrow> Inl TypeError
      | Some fs \<Rightarrow>
          bindE (toFaceVerticesJson (north fs)) (\<lambda>nrth.
          bindE (toFaceVerticesJson (east fs)) (\<lambda>est.
          bindE (toFaceVerticesJson (south fs)) (\<lambda>sth.
          bindE (toFaceVerticesJson (west fs)) (\<lambda>wst.
          bindE (toFaceVerticesJson (up fs)) (\<lambda>upf.
          bindE (toFaceVerticesJson (down fs)) (\<lambda>dwn.
            Inr [est ! 3, est ! 2, est ! 0, est ! 1,
                 wst ! 3, wst ! 2, wst ! 0, wst ! 1,
                 upf ! 3, upf ! 2, upf ! 0, upf ! 1,
                 dwn ! 3, dwn ! 2, dwn ! 0, dwn ! 1,
                 sth ! 3, sth ! 2, sth ! 0, sth ! 1,
                 nrth ! 3, nrth ! 2, nrth ! 0, nrth ! 1])))))))"

text \<open>
  The same two functions as \<^verbatim>\<open>src/src/model.ts\<close> has them. There the arrow function takes
  the \<^verbatim>\<open>uv\<close> array only, so a face's \<^verbatim>\<open>rotation\<close> is never read and nothing is rotated,
  and the \<^verbatim>\<open>down\<close> face is assigned in the order 0, 1, 3, 2. The argument of
  \<open>toFaceVerticesModelTs\<close> is the face whose \<^verbatim>\<open>uv\<close> the call site reads.
\<close>

definition toFaceVerticesModelTs :: "face option \<Rightarrow> error + vec2 option list" where
  "toFaceVerticesModelTs fc =
     (case fc of
        None \<Rightarrow> Inl TypeError
      | Some f \<Rightarrow>
          (case uv f of
             None \<Rightarrow> Inl TypeError
           | Some (uvs0, uvs1, uvs2, uvs3) \<Rightarrow>
               Inr [Some (uvs0 / 16, 1 - uvs3 / 16),
                    Some (uvs2 / 16, 1 - uvs3 / 16),
                    Some (uvs2 / 16, 1 - uvs1 / 16),
                    Some (uvs0 / 16, 1 - uvs1 / 16)]))"

definition setJsonUVsModelTs :: "faces option \<Rightarrow> error + vec2 option list" where
  "setJsonUVsModelTs faceUVs =
     (case faceUVs of
        None \<Rightarrow> Inl TypeError
      | Some fs \<Rightarrow>
          bindE (toFaceVerticesModelTs (north fs)) (\<lambda>nrth.
          bindE (toFaceVerticesModelTs (east fs)) (\<lambda>est.
          bindE (toFaceVerticesModelTs (south fs)) (\<lambda>sth.
          bindE (toFaceVerticesModelTs (west fs)) (\<lambda>wst.
          bindE (toFaceVerticesModelTs (up fs)) (\<lambda>upf.
          bindE (toFaceVerticesModelTs (down fs)) (\<lambda>dwn.
            Inr [est ! 3, est ! 2, est ! 0, est ! 1,
                 wst ! 3, wst ! 2, wst ! 0, wst ! 1,
                 upf ! 3, upf ! 2, upf ! 0, upf ! 1,
                 dwn ! 0, dwn ! 1, dwn ! 3, dwn ! 2,
                 sth ! 3, sth ! 2, sth ! 0, sth ! 1,
                 nrth ! 3, nrth ! 2, nrth ! 0, nrth ! 1])))))))"

text \<open>
  Reading the attribute back. Both versions store the vertices of the faces in the order east,
  west, up, down, south, north, four entries each, and a face's vertices \<open>v0, v1, v2, v3\<close> in
  the order \<open>v3, v2, v0, v1\<close> (\<^verbatim>\<open>src/src/model.ts\<close>: the down face alone in the order
  \<open>v0, v1, v3, v2\<close>). \<open>faceOfAttr uvs i\<close> gives back \<open>v0, v1, v2, v3\<close> of the face stored at
  position \<open>i\<close> in the first order; \<open>uvsOf\<close> is the attribute a call leaves, empty when it threw.
\<close>

datatype faceName = North | East | South | West | Up | Down

fun getFace :: "faces \<Rightarrow> faceName \<Rightarrow> face option" where
  "getFace fs North = north fs"
| "getFace fs East = east fs"
| "getFace fs South = south fs"
| "getFace fs West = west fs"
| "getFace fs Up = up fs"
| "getFace fs Down = down fs"

fun setFace :: "faceName \<Rightarrow> face option \<Rightarrow> faces \<Rightarrow> faces" where
  "setFace North f fs = fs\<lparr>north := f\<rparr>"
| "setFace East f fs = fs\<lparr>east := f\<rparr>"
| "setFace South f fs = fs\<lparr>south := f\<rparr>"
| "setFace West f fs = fs\<lparr>west := f\<rparr>"
| "setFace Up f fs = fs\<lparr>up := f\<rparr>"
| "setFace Down f fs = fs\<lparr>down := f\<rparr>"

fun slot :: "faceName \<Rightarrow> nat" where
  "slot East = 0"
| "slot West = 1"
| "slot Up = 2"
| "slot Down = 3"
| "slot South = 4"
| "slot North = 5"

definition faceOfAttr :: "'a list \<Rightarrow> nat \<Rightarrow> 'a list" where
  "faceOfAttr uvs i = [uvs ! (4 * i + 2), uvs ! (4 * i + 3), uvs ! (4 * i + 1), uvs ! (4 * i)]"

definition uvsOf :: "error + 'a list \<Rightarrow> 'a list" where
  "uvsOf r = (case r of Inl e \<Rightarrow> [] | Inr uvs \<Rightarrow> uvs)"

text \<open>A face that \<^verbatim>\<open>setJsonUVs\<close> can project: it is present and has a \<^verbatim>\<open>uv\<close> rectangle.\<close>

definition faceOk :: "face option \<Rightarrow> bool" where
  "faceOk fc = (case fc of None \<Rightarrow> False | Some f \<Rightarrow> uv f \<noteq> None)"

definition facesOk :: "faces option \<Rightarrow> bool" where
  "facesOk faceUVs =
     (case faceUVs of
        None \<Rightarrow> False
      | Some fs \<Rightarrow> faceOk (north fs) \<and> faceOk (east fs) \<and> faceOk (south fs) \<and> faceOk (west fs)
          \<and> faceOk (up fs) \<and> faceOk (down fs))"

text \<open>
  The document in which the face \<open>n\<close> of \<open>fs\<close> declares the rotation \<open>r\<close>, or none.
\<close>

definition declareRotation :: "faceName \<Rightarrow> real option \<Rightarrow> faces \<Rightarrow> faces" where
  "declareRotation n r fs = setFace n (map_option (\<lambda>f. f\<lparr>frotation := r\<rparr>) (getFace fs n)) fs"

section \<open>Avatar skeleton: the slim toggle (\<^verbatim>\<open>SkinObject.modelType\<close>)\<close>

datatype ModelType = Default | Slim

text \<open>
  The part of a \<^verbatim>\<open>SkinObject\<close> that the model listeners read and write: the \<^verbatim>\<open>slim\<close> flag,
  the scale of the four arm meshes, the \<^verbatim>\<open>uv\<close> attribute of their four boxes, and the position
  of the two arm pivots.
\<close>

record SkinObject =
  slim :: bool
  rightArmMesh_scale :: vec3
  rightArmBox_uv :: "vec2 list"
  rightArm2Mesh_scale :: vec3
  rightArm2Box_uv :: "vec2 list"
  rightArmPivot_position :: vec3
  leftArmMesh_scale :: vec3
  leftArmBox_uv :: "vec2 list"
  leftArm2Mesh_scale :: vec3
  leftArm2Box_uv :: "vec2 list"
  leftArmPivot_position :: vec3

text \<open>Assigning \<^verbatim>\<open>position.x\<close> keeps the other two components.\<close>

definition set_x :: "real \<Rightarrow> vec3 \<Rightarrow> vec3" where
  "set_x a p = (case p of (x, y, z) \<Rightarrow> (a, y, z))"

text \<open>The six listeners, in the order the constructor pushes them.\<close>

definition rightArmListener :: "SkinObject \<Rightarrow> SkinObject" where
  "rightArmListener s =
     s\<lparr>rightArmMesh_scale := (if slim s then 3 else 4, 12, 4),
       rightArmBox_uv := setSkinUVs 40 16 (if slim s then 3 else 4) 12 4\<rparr>"

definition rightArm2Listener :: "SkinObject \<Rightarrow> SkinObject" where
  "rightArm2Listener s =
     s\<lparr>rightArm2Mesh_scale := (if slim s then 3.5 else 4.5, 12.5, 4.5),
       rightArm2Box_uv := setSkinUVs 40 32 (if slim s then 3 else 4) 12 4\<rparr>"

definition rightArmPivotListener :: "SkinObject \<Rightarrow> SkinObject" where
  "rightArmPivotListener s =
     s\<lparr>rightArmPivot_position := set_x (if slim s then - 0.5 else - 1) (rightArmPivot_position s)\<rparr>"

definition leftArmListener :: "SkinObject \<Rightarrow> SkinObject" where
  "leftArmListener s =
     s\<lparr>leftArmMesh_scale := (if slim s then 3 else 4, 12, 4),
       leftArmBox_uv := setSkinUVs 32 48 (if slim s then 3 else 4) 12 4\<rparr>"

definition leftArm2Listener :: "SkinObject \<Rightarrow> SkinObject" where
  "leftArm2Listener s =
     s\<lparr>leftArm2Mesh_scale := (if slim s then 3.5 else 4.5, 12.5, 4.5),
       leftArm2Box_uv := setSkinUVs 48 48 (if slim s then 3 else 4) 12 4\<rparr>"

definition leftArmPivotListener :: "SkinObject \<Rightarrow> SkinObject" where
  "leftArmPivotListener s =
     s\<lparr>leftArmPivot_position := set_x (if slim s then 0.5 else 1) (leftArmPivot_position s)\<rparr>"

definition modelListeners :: "(SkinObject \<Rightarrow> SkinObject) list" where
  "modelListeners =
     [rightArmListener, rightArm2Listener, rightArmPivotListener,
      leftArmListener, leftArm2Listener, leftArmPivotListener]"

definition getModelType :: "SkinObject \<Rightarrow> ModelType" where
  "getModelType s = (if slim s then Slim else Default)"

text \<open>The setter stores the flag, then calls every listener in order.\<close>

definition setModelType :: "ModelType \<Rightarrow> SkinObject \<Rightarrow> SkinObject" where
  "setModelType v s = fold (\<lambda>listener t. listener t) modelListeners (s\<lparr>slim := (v = Slim)\<rparr>)"

section \<open>Hat slots of the player (\<^verbatim>\<open>PlayerObject\<close> constructor)\<close>

text \<open>
  An entry of \<^verbatim>\<open>hatCanvases\<close> carries the model document the hat is built from. A mounted
  \<^verbatim>\<open>JsonModelObject\<close> records that document, its name, position and y rotation, and
  \<open>objId\<close>, the rank of its \<^verbatim>\<open>new\<close> among the hats the constructor creates, which tells
  instances apart.
\<close>

record 'm canvasEntry =
  model :: 'm

record 'm JsonModelObject =
  jsonModel :: 'm
  objName :: string
  objPosition :: vec3
  objRotationY :: real
  objId :: nat

record 'm hatSlots =
  hat1 :: "'m JsonModelObject option"
  hat2 :: "'m JsonModelObject option"
  hat3 :: "'m JsonModelObject option"
  hat4 :: "'m JsonModelObject option"
  hat5 :: "'m JsonModelObject option"
  hat6 :: "'m JsonModelObject option"
  hat7 :: "'m JsonModelObject option"
  hat8 :: "'m JsonModelObject option"
  hat9 :: "'m JsonModelObject option"
  headChildren :: "'m JsonModelObject list"
  nextId :: nat

text \<open>
  \<^verbatim>\<open>hatCanvases[i]\<close>: reading past the end of the array gives \<^verbatim>\<open>undefined\<close>, which
  \<^verbatim>\<open>!= null\<close> treats as \<^verbatim>\<open>null\<close>.
\<close>

definition canvasAt :: "'m canvasEntry option list \<Rightarrow> nat \<Rightarrow> 'm canvasEntry option" where
  "canvasAt cs i = (if i < length cs then cs ! i else None)"

text \<open>
  One \<^verbatim>\<open>if (hatCanvases[i] != null) { ... }\<close> block: when the entry is present, create the
  object from the entry's model, store it in the block's field (\<open>setField\<close>), name and place
  it, and add it to the head.
\<close>

definition mountBlock ::
  "'m canvasEntry option \<Rightarrow> string \<Rightarrow> ('m JsonModelObject option \<Rightarrow> 'm hatSlots \<Rightarrow> 'm hatSlots)
     \<Rightarrow> 'm hatSlots \<Rightarrow> 'm hatSlots" where
  "mountBlock c n setField p =
     (case c of
        None \<Rightarrow> p
      | Some e \<Rightarrow>
          let h = \<lparr>jsonModel = model e, objName = n, objPosition = (8, 8, 8),
                   objRotationY = pi, objId = nextId p\<rparr>;
              p' = setField (Some h) p
          in p'\<lparr>headChildren := headChildren p' @ [h], nextId := Suc (nextId p')\<rparr>)"

text \<open>
  The hat part of the constructor: the nine fields start as \<^verbatim>\<open>null\<close>, then the nine blocks
  run in order. The ninth block tests \<^verbatim>\<open>hatCanvases[8]\<close> and assigns \<^verbatim>\<open>this.hat8\<close>, under the
  name \<^verbatim>\<open>"hat8"\<close>, as the source does.
\<close>

definition mountHats :: "'m canvasEntry option list \<Rightarrow> 'm hatSlots" where
  "mountHats hatCanvases =
     (let p = \<lparr>hat1 = None, hat2 = None, hat3 = None, hat4 = None, hat5 = None,
               hat6 = None, hat7 = None, hat8 = None, hat9 = None,
               headChildren = [], nextId = 0\<rparr>;
          p = mountBlock (canvasAt hatCanvases 0) ''hat1'' (\<lambda>h q. q\<lparr>hat1 := h\<rparr>) p;
          p = mountBlock (canvasAt hatCanvases 1) ''hat2'' (\<lambda>h q. q\<lparr>hat2 := h\<rparr>) p;
          p = mountBlock (canvasAt hatCanvases 2) ''hat3'' (\<lambda>h q. q\<lparr>hat3 := h\<rparr>) p;
          p = mountBlock (canvasAt hatCanvases 3) ''hat4'' (\<lambda>h q. q\<lparr>hat4 := h\<rparr>) p;
          p = mountBlock (canvasAt hatCanvases 4) ''hat5'' (\<lambda>h q. q\<lparr>hat5 := h\<rparr>) p;
          p = mountBlock (canvasAt hatCanvases 5) ''hat6'' (\<lambda>h q. q\<lparr>hat6 := h\<rparr>) p;
          p = mountBlock (canvasAt hatCanvases 6) ''hat7'' (\<lambda>h q. q\<lparr>hat7 := h\<rparr>) p;
          p = mountBlock (canvasAt hatCanvases 7) ''hat8'' (\<lambda>h q. q\<lparr>hat8 := h\<rparr>) p;
          p = mountBlock (canvasAt hatCanvases 8) ''hat8'' (\<lambda>h q. q\<lparr>hat8 := h\<rparr>) p
      in p)"

section \<open>Cuboid-model interpreter (\<^verbatim>\<open>JsonModelObject.updateModel\<close>)\<close>

subsection \<open>The three.js operations the interpreter calls\<close>

text \<open>
  The interpreter builds on three.js, which \<^verbatim>\<open>package.json\<close> pins to \<^verbatim>\<open>^0.136.0\<close> (release
  r136). The definitions of this subsection follow that release: \<^verbatim>\<open>Vector3.sub\<close>,
  \<^verbatim>\<open>Vector3.add\<close>, \<^verbatim>\<open>Quaternion.setFromAxisAngle\<close>, \<^verbatim>\<open>Vector3.applyQuaternion\<close>,
  \<^verbatim>\<open>Vector3.applyAxisAngle\<close>, \<^verbatim>\<open>Quaternion.multiply\<close>, \<^verbatim>\<open>Object3D.rotateOnAxis\<close>,
  \<^verbatim>\<open>BoxGeometry\<close>, \<^verbatim>\<open>BufferGeometry.translate\<close> and the rotation part of
  \<^verbatim>\<open>Matrix4.compose\<close>. A quaternion is the tuple \<open>(x, y, z, w)\<close>.
\<close>

type_synonym quat = "real \<times> real \<times> real \<times> real"

definition vsub :: "vec3 \<Rightarrow> vec3 \<Rightarrow> vec3" where
  "vsub a b = (case a of (ax, ay, az) \<Rightarrow> case b of (bx, by, bz) \<Rightarrow> (ax - bx, ay - by, az - bz))"

definition vadd :: "vec3 \<Rightarrow> vec3 \<Rightarrow> vec3" where
  "vadd a b = (case a of (ax, ay, az) \<Rightarrow> case b of (bx, by, bz) \<Rightarrow> (ax + bx, ay + by, az + bz))"

text \<open>
  \<^verbatim>\<open>setFromAxisAngle\<close> assumes, and does not check, that the axis is normalised.
\<close>

definition setFromAxisAngle :: "vec3 \<Rightarrow> real \<Rightarrow> quat" where
  "setFromAxisAngle axis angle =
     (case axis of (ax, ay, az) \<Rightarrow>
        let halfAngle = angle / 2; s = sin halfAngle
        in (ax * s, ay * s, az * s, cos halfAngle))"

text \<open>
  \<^verbatim>\<open>applyQuaternion\<close> computes the product \<open>q * v * q\<^sup>-\<^sup>1\<close> for a unit quaternion, in two
  steps: \<open>q * v\<close>, then the product with the conjugate of \<open>q\<close>.
\<close>

definition applyQuaternion :: "vec3 \<Rightarrow> quat \<Rightarrow> vec3" where
  "applyQuaternion v q =
     (case v of (x, y, z) \<Rightarrow> case q of (qx, qy, qz, qw) \<Rightarrow>
        let ix = qw * x + qy * z - qz * y;
            iy = qw * y + qz * x - qx * z;
            iz = qw * z + qx * y - qy * x;
            iw = - qx * x - qy * y - qz * z
        in (ix * qw + iw * - qx + iy * - qz - iz * - qy,
            iy * qw + iw * - qy + iz * - qx - ix * - qz,
            iz * qw + iw * - qz + ix * - qy - iy * - qx))"

definition applyAxisAngle :: "vec3 \<Rightarrow> vec3 \<Rightarrow> real \<Rightarrow> vec3" where
  "applyAxisAngle v axis angle = applyQuaternion v (setFromAxisAngle axis angle)"

definition multiplyQuaternions :: "quat \<Rightarrow> quat \<Rightarrow> quat" where
  "multiplyQuaternions a b =
     (case a of (qax, qay, qaz, qaw) \<Rightarrow> case b of (qbx, qby, qbz, qbw) \<Rightarrow>
        (qax * qbw + qaw * qbx + qay * qbz - qaz * qby,
         qay * qbw + qaw * qby + qaz * qbx - qax * qbz,
         qaz * qbw + qaw * qbz + qax * qby - qay * qbx,
         qaw * qbw - qax * qbx - qay * qby - qaz * qbz))"

text \<open>
  The rotation block of \<^verbatim>\<open>Matrix4.compose\<close> at unit scale, by columns: the matrix the renderer
  derives from an object's quaternion. The quaternion is not normalised first.
\<close>

definition rotationMatrix :: "quat \<Rightarrow> vec3 \<times> vec3 \<times> vec3" where
  "rotationMatrix q =
     (case q of (x, y, z, w) \<Rightarrow>
        let x2 = x + x; y2 = y + y; z2 = z + z;
            xx = x * x2; xy = x * y2; xz = x * z2;
            yy = y * y2; yz = y * z2; zz = z * z2;
            wx = w * x2; wy = w * y2; wz = w * z2
        in ((1 - (yy + zz), xy + wz, xz - wy),
            (xy - wz, 1 - (xx + zz), yz + wx),
            (xz + wy, yz - wx, 1 - (xx + yy))))"

text \<open>
  A box geometry: its \<^verbatim>\<open>parameters\<close> \<open>(width, height, depth)\<close>, its corner positions (the
  \<^verbatim>\<open>position\<close> attribute lists each corner once per adjacent face; the eight distinct
  corners are kept here) and its \<^verbatim>\<open>uv\<close> attribute. A new box is centred at the origin.
\<close>

record BoxGeometry =
  parameters :: vec3
  vertices :: "vec3 list"
  uvAttr :: "vec2 option list"

definition newBoxGeometry :: "real \<Rightarrow> real \<Rightarrow> real \<Rightarrow> BoxGeometry" where
  "newBoxGeometry w h d =
     \<lparr>parameters = (w, h, d),
      vertices = [(sx * w / 2, sy * h / 2, sz * d / 2). sx \<leftarrow> [- 1, 1], sy \<leftarrow> [- 1, 1], sz \<leftarrow> [- 1, 1]],
      uvAttr = []\<rparr>"

definition translate :: "real \<Rightarrow> real \<Rightarrow> real \<Rightarrow> BoxGeometry \<Rightarrow> BoxGeometry" where
  "translate x y z g = g\<lparr>vertices := map (\<lambda>p. vadd p (x, y, z)) (vertices g)\<rparr>"

text \<open>The bounding box of a geometry and its centre (\<^verbatim>\<open>Box3.setFromBufferAttribute\<close>, \<^verbatim>\<open>Box3.getCenter\<close>).\<close>

definition boundingBox :: "BoxGeometry \<Rightarrow> vec3 \<times> vec3" where
  "boundingBox g =
     (let xs = map fst (vertices g); ys = map (fst \<circ> snd) (vertices g);
          zs = map (snd \<circ> snd) (vertices g)
      in ((Min (set xs), Min (set ys), Min (set zs)), (Max (set xs), Max (set ys), Max (set zs))))"

definition boxCenter :: "BoxGeometry \<Rightarrow> vec3" where
  "boxCenter g =
     (case boundingBox g of ((x0, y0, z0), (x1, y1, z1)) \<Rightarrow>
        ((x0 + x1) / 2, (y0 + y1) / 2, (z0 + z1) / 2))"

definition boxSize :: "BoxGeometry \<Rightarrow> vec3" where
  "boxSize g =
     (case boundingBox g of ((x0, y0, z0), (x1, y1, z1)) \<Rightarrow> (x1 - x0, y1 - y0, z1 - z0))"

text \<open>
  A mesh: its geometry, and the position and quaternion every new \<^verbatim>\<open>Object3D\<close> starts with,
  \<open>(0, 0, 0)\<close> and \<open>(0, 0, 0, 1)\<close>.
\<close>

record Mesh =
  geometry :: BoxGeometry
  mposition :: vec3
  mquaternion :: quat

definition newMesh :: "BoxGeometry \<Rightarrow> Mesh" where
  "newMesh g = \<lparr>geometry = g, mposition = (0, 0, 0), mquaternion = (0, 0, 0, 1)\<rparr>"

definition rotateOnAxis :: "vec3 \<Rightarrow> real \<Rightarrow> Mesh \<Rightarrow> Mesh" where
  "rotateOnAxis axis angle m =
     m\<lparr>mquaternion := multiplyQuaternions (mquaternion m) (setFromAxisAngle axis angle)\<rparr>"

subsection \<open>Documents and the interpreter\<close>

text \<open>
  A document is parsed JSON: an element's \<^verbatim>\<open>from\<close>, \<^verbatim>\<open>to\<close>, \<^verbatim>\<open>rotation\<close> and \<^verbatim>\<open>faces\<close>
  and a rotation's \<^verbatim>\<open>origin\<close> can be missing (\<open>None\<close>).
\<close>

record rotationSpec =
  rangle :: real
  raxis :: string
  rorigin :: "vec3 option"

record element =
  efrom :: "vec3 option"
  eto :: "vec3 option"
  erotation :: "rotationSpec option"
  efaces :: "faces option"

record modelDocument =
  elements :: "element list option"

text \<open>The \<^verbatim>\<open>switch\<close> on the axis name.\<close>

definition axisVector :: "string \<Rightarrow> vec3" where
  "axisVector axisStr =
     (if axisStr = ''x'' then (1, 0, 0)
      else if axisStr = ''y'' then (0, 1, 0)
      else if axisStr = ''z'' then (0, 0, 1)
      else (0, 0, 0))"

text \<open>
  The body of the element loop, which \<^verbatim>\<open>updateModel\<close> of \<^verbatim>\<open>src/unnamed/part_000\<close> and the
  constructor of \<^verbatim>\<open>src/src/model.ts\<close> share word for word; the two differ in the
  \<^verbatim>\<open>setJsonUVs\<close> they call, the parameter \<open>setUV\<close> here. The body throws when it reads
  \<^verbatim>\<open>element.to[0]\<close>, \<^verbatim>\<open>element.from[0]\<close> or \<^verbatim>\<open>pivotAny[0]\<close> of a missing array, and when
  \<^verbatim>\<open>setJsonUVs\<close> throws; the mesh is added to the object only at the end of the body.
\<close>

definition elementMesh :: "(faces option \<Rightarrow> error + vec2 option list) \<Rightarrow> element \<Rightarrow> error + Mesh" where
  "elementMesh setUV el =
     (case eto el of
        None \<Rightarrow> Inl TypeError
      | Some (to0, to1, to2) \<Rightarrow>
     (case efrom el of
        None \<Rightarrow> Inl TypeError
      | Some (from0, from1, from2) \<Rightarrow>
        let xDif = to0 - from0; yDif = to1 - from1; zDif = to2 - from2;
            xPos = from0; yPos = from1; zPos = from2;
            box = newBoxGeometry \<bar>xDif\<bar> \<bar>yDif\<bar> \<bar>zDif\<bar>;
            hXdif = 0.5 * xDif; hYdif = 0.5 * yDif; hZdif = 0.5 * zDif;
            box = translate hXdif hYdif hZdif box;
            box = translate xPos yPos zPos box
        in bindE (setUV (efaces el)) (\<lambda>uvs.
             let box = box\<lparr>uvAttr := uvs\<rparr>;
                 mesh = newMesh box
             in (case erotation el of
                   None \<Rightarrow> Inr mesh
                 | Some r \<Rightarrow>
                     let a = rangle r * pi / 180;
                         ax = axisVector (raxis r)
                     in (case rorigin r of
                           None \<Rightarrow> Inl TypeError
                         | Some pivot \<Rightarrow>
                             let mesh = mesh\<lparr>mposition := vsub (mposition mesh) pivot\<rparr>;
                                 mesh = mesh\<lparr>mposition := applyAxisAngle (mposition mesh) ax a\<rparr>;
                                 mesh = mesh\<lparr>mposition := vadd (mposition mesh) pivot\<rparr>
                             in Inr (rotateOnAxis ax a mesh))))))"

text \<open>
  The loop over the elements: each mesh is appended to the children of the object; an exception
  ends the loop and leaves the children added so far.
\<close>

fun addMeshes :: "(element \<Rightarrow> error + Mesh) \<Rightarrow> element list \<Rightarrow> Mesh list
    \<Rightarrow> (error \<times> Mesh list) + Mesh list" where
  "addMeshes f [] children = Inr children"
| "addMeshes f (el # els) children =
     (case f el of
        Inl e \<Rightarrow> Inl (e, children)
      | Inr mesh \<Rightarrow> addMeshes f els (children @ [mesh]))"

text \<open>
  \<^verbatim>\<open>updateModel\<close> (\<^verbatim>\<open>src/unnamed/part_000\<close>) returns at once on a missing document or a
  document without \<^verbatim>\<open>elements\<close>; otherwise it runs the loop. The result is the list of the
  object's children, with the exception when one was thrown.
\<close>

definition updateModel :: "modelDocument option \<Rightarrow> Mesh list \<Rightarrow> (error \<times> Mesh list) + Mesh list" where
  "updateModel json children =
     (case json of
        None \<Rightarrow> Inr children
      | Some j \<Rightarrow>
          (case elements j of
             None \<Rightarrow> Inr children
           | Some els \<Rightarrow> addMeshes (elementMesh setJsonUVs) els children))"

text \<open>
  The constructor of \<^verbatim>\<open>JsonModelObject\<close> in \<^verbatim>\<open>src/src/model.ts\<close>: the same loop, guarded by
  \<^verbatim>\<open>if (json && json.elements)\<close>, on an object that has no children yet.
\<close>

definition newJsonModelObjectModelTs :: "modelDocument option \<Rightarrow> (error \<times> Mesh list) + Mesh list" where
  "newJsonModelObjectModelTs json =
     (case json of
        None \<Rightarrow> Inr []
      | Some j \<Rightarrow>
          (case elements j of
             None \<Rightarrow> Inr []
           | Some els \<Rightarrow> addMeshes (elementMesh setJsonUVsModelTs) els []))"

text \<open>The children of the object after the call, whether it returned or threw.\<close>

definition childrenOf :: "(error \<times> Mesh list) + Mesh list \<Rightarrow> Mesh list" where
  "childrenOf r = (case r of Inl (e, children) \<Rightarrow> children | Inr children \<Rightarrow> children)"

text \<open>
  An element the loop body can interpret: \<^verbatim>\<open>from\<close>, \<^verbatim>\<open>to\<close> and the six faces with their
  \<^verbatim>\<open>uv\<close> are present, and so is the \<^verbatim>\<open>origin\<close> of a declared rotation.
\<close>

definition wellFormed :: "element \<Rightarrow> bool" where
  "wellFormed el =
     (efrom el \<noteq> None \<and> eto el \<noteq> None \<and> facesOk (efaces el)
      \<and> (case erotation el of None \<Rightarrow> True | Some r \<Rightarrow> rorigin r \<noteq> None))"

section \<open>Pixel buffers (\<^verbatim>\<open>copyImage\<close>, \<^verbatim>\<open>hasTransparency\<close>, \<^verbatim>\<open>convertSkinTo1_8\<close>, \<^verbatim>\<open>isSlimSkin\<close>)\<close>

subsection \<open>The canvas operations the source calls\<close>

text \<open>
  The bitmap behind a 2D context: its size and, for every pixel \<open>(x, y)\<close> and channel
  \<open>k\<close> (0 red, 1 green, 2 blue, 3 alpha), one byte. The bitmap is taken to store the bytes
  it is given; the rounding a browser may apply when it keeps colours premultiplied by alpha
  is left out.
\<close>

type_synonym byte = "8 word"

record canvas =
  cwidth :: nat
  cheight :: nat
  cpix :: "nat \<Rightarrow> nat \<Rightarrow> nat \<Rightarrow> byte"

text \<open>Pixels outside the bitmap read as transparent black.\<close>

definition pixelAt :: "canvas \<Rightarrow> nat \<Rightarrow> nat \<Rightarrow> nat \<Rightarrow> byte" where
  "pixelAt c x y k = (if x < cwidth c \<and> y < cheight c then cpix c x y k else 0)"

text \<open>
  An \<^verbatim>\<open>ImageData\<close>: \<^verbatim>\<open>data\<close> holds four bytes per pixel, row by row, so that channel \<open>k\<close>
  of pixel \<open>(x, y)\<close> is at index \<open>(x + y * width) * 4 + k\<close>.
\<close>

record ImageData =
  iwidth :: nat
  iheight :: nat
  idata :: "byte list"

text \<open>
  The source hands JavaScript numbers, here reals, to \<^verbatim>\<open>getImageData\<close> and
  \<^verbatim>\<open>putImageData\<close>, whose parameters are declared \<^verbatim>\<open>long\<close>: the canvas drops the fractional
  part of each argument (\<open>toLong\<close>; the source passes no negative number). A rectangle of
  width or height 0 is refused with an \<^verbatim>\<open>IndexSizeError\<close>. \<open>readPixels\<close> and \<open>writePixels\<close>
  are the two operations on the whole numbers so obtained; \<open>writePixels\<close> writes the part of
  the image that falls inside the bitmap.
\<close>

definition toLong :: "real \<Rightarrow> nat" where
  "toLong r = nat \<lfloor>r\<rfloor>"

definition readPixels :: "canvas \<Rightarrow> nat \<Rightarrow> nat \<Rightarrow> nat \<Rightarrow> nat \<Rightarrow> ImageData" where
  "readPixels c sx sy sw sh =
     \<lparr>iwidth = sw, iheight = sh,
      idata = map (\<lambda>i. pixelAt c (sx + (i div 4) mod sw) (sy + (i div 4) div sw) (i mod 4))
                  [0..<4 * sw * sh]\<rparr>"

definition getImageData :: "canvas \<Rightarrow> real \<Rightarrow> real \<Rightarrow> real \<Rightarrow> real \<Rightarrow> error + ImageData" where
  "getImageData c sx sy sw sh =
     (if toLong sw = 0 \<or> toLong sh = 0 then Inl IndexSizeError
      else Inr (readPixels c (toLong sx) (toLong sy) (toLong sw) (toLong sh)))"

definition writePixels :: "canvas \<Rightarrow> ImageData \<Rightarrow> nat \<Rightarrow> nat \<Rightarrow> canvas" where
  "writePixels c img dx dy =
     c\<lparr>cpix := (\<lambda>x y k.
          if dx \<le> x \<and> x < dx + iwidth img \<and> dy \<le> y \<and> y < dy + iheight img \<and> k < 4 \<and>
             x < cwidth c \<and> y < cheight c
          then idata img ! (((x - dx) + (y - dy) * iwidth img) * 4 + k)
          else cpix c x y k)\<rparr>"

definition putImageData :: "canvas \<Rightarrow> ImageData \<Rightarrow> real \<Rightarrow> real \<Rightarrow> canvas" where
  "putImageData c img dx dy = writePixels c img (toLong dx) (toLong dy)"

text \<open>
  A \<^verbatim>\<open>Uint8ClampedArray\<close> indexed by a JavaScript number: reading at an index that is not
  a whole number, or past the end, gives \<^verbatim>\<open>undefined\<close> (\<open>None\<close>); a write there is ignored,
  and writing \<^verbatim>\<open>undefined\<close> stores 0.
\<close>

definition u8_get :: "byte list \<Rightarrow> real \<Rightarrow> byte option" where
  "u8_get d i =
     (if 0 \<le> i \<and> real_of_int \<lfloor>i\<rfloor> = i \<and> nat \<lfloor>i\<rfloor> < length d then Some (d ! nat \<lfloor>i\<rfloor>) else None)"

definition u8_set :: "byte list \<Rightarrow> real \<Rightarrow> byte option \<Rightarrow> byte list" where
  "u8_set d i v =
     (if 0 \<le> i \<and> real_of_int \<lfloor>i\<rfloor> = i \<and> nat \<lfloor>i\<rfloor> < length d
      then d[nat \<lfloor>i\<rfloor> := (case v of Some b \<Rightarrow> b | None \<Rightarrow> 0)] else d)"

subsection \<open>\<^verbatim>\<open>copyImage\<close>\<close>

text \<open>
  The body of the inner loop of \<^verbatim>\<open>copyImage\<close>: the pixels at \<open>x\<close> and \<open>w - x - 1\<close> of row
  \<open>y\<close> change places. The width \<open>w\<close> is the number the caller passed, not the width of the
  image data.
\<close>

definition swapPixels :: "real \<Rightarrow> nat \<Rightarrow> nat \<Rightarrow> byte list \<Rightarrow> byte list" where
  "swapPixels w y x d =
     (let index = (real x + real y * w) * 4;
          index2 = ((w - real x - 1) + real y * w) * 4;
          pA1 = u8_get d index;
          pA2 = u8_get d (index + 1);
          pA3 = u8_get d (index + 2);
          pA4 = u8_get d (index + 3);
          pB1 = u8_get d index2;
          pB2 = u8_get d (index2 + 1);
          pB3 = u8_get d (index2 + 2);
          pB4 = u8_get d (index2 + 3);
          d = u8_set d index pB1;
          d = u8_set d (index + 1) pB2;
          d = u8_set d (index + 2) pB3;
          d = u8_set d (index + 3) pB4;
          d = u8_set d index2 pA1;
          d = u8_set d (index2 + 1) pA2;
          d = u8_set d (index2 + 2) pA3;
          d = u8_set d (index2 + 3) pA4
      in d)"

text \<open>
  The two loops: \<open>y\<close> runs over the whole numbers below \<open>h\<close> and \<open>x\<close> over those below
  \<open>w / 2\<close>; the whole numbers below a real \<open>r\<close> are those below \<open>nat \<lceil>r\<rceil>\<close>.
\<close>

definition flipHorizontally :: "real \<Rightarrow> real \<Rightarrow> byte list \<Rightarrow> byte list" where
  "flipHorizontally w h d =
     fold (\<lambda>y d. fold (\<lambda>x d. swapPixels w y x d) [0..<nat \<lceil>w / 2\<rceil>] d) [0..<nat \<lceil>h\<rceil>] d"

definition copyImage ::
  "canvas \<Rightarrow> real \<Rightarrow> real \<Rightarrow> real \<Rightarrow> real \<Rightarrow> real \<Rightarrow> real \<Rightarrow> bool \<Rightarrow> error + canvas" where
  "copyImage context sX sY w h dX dY flipHorizontal =
     bindE (getImageData context sX sY w h) (\<lambda>imgData.
       let imgData = (if flipHorizontal
                      then imgData\<lparr>idata := flipHorizontally w h (idata imgData)\<rparr>
                      else imgData)
       in Inr (putImageData context imgData dX dY))"

subsection \<open>\<^verbatim>\<open>hasTransparency\<close>\<close>

definition hasTransparency :: "canvas \<Rightarrow> real \<Rightarrow> real \<Rightarrow> real \<Rightarrow> real \<Rightarrow> error + bool" where
  "hasTransparency context x0 y0 w h =
     bindE (getImageData context x0 y0 w h) (\<lambda>imgData.
       Inr (list_ex (\<lambda>x. list_ex (\<lambda>y.
              let offset = (real x + real y * w) * 4
              in u8_get (idata imgData) (offset + 3) \<noteq> Some 0xff) [0..<nat \<lceil>h\<rceil>]) [0..<nat \<lceil>w\<rceil>]))"

subsection \<open>Scaling, \<^verbatim>\<open>convertSkinTo1_8\<close> and \<^verbatim>\<open>isSlimSkin\<close>\<close>

definition computeSkinScale :: "nat \<Rightarrow> real" where
  "computeSkinScale width = real width / 64"

definition copySkin ::
  "real \<Rightarrow> canvas \<Rightarrow> real \<Rightarrow> real \<Rightarrow> real \<Rightarrow> real \<Rightarrow> real \<Rightarrow> real \<Rightarrow> bool \<Rightarrow> error + canvas" where
  "copySkin scale skinContext sX sY w h dX dY flipHorizontal =
     copyImage skinContext (sX * scale) (sY * scale) (w * scale) (h * scale)
       (dX * scale) (dY * scale) flipHorizontal"

text \<open>
  The twelve calls run in order on the same context; an exception in one of them ends
  \<^verbatim>\<open>convertSkinTo1_8\<close>. The result is the context after the last call.
\<close>

definition convertSkinTo1_8 :: "canvas \<Rightarrow> nat \<Rightarrow> error + canvas" where
  "convertSkinTo1_8 skinContext width =
     (let scale = computeSkinScale width
      in bindE (copySkin scale skinContext 4 16 4 4 20 48 True) (\<lambda>c.
         bindE (copySkin scale c 8 16 4 4 24 48 True) (\<lambda>c.
         bindE (copySkin scale c 0 20 4 12 24 52 True) (\<lambda>c.
         bindE (copySkin scale c 4 20 4 12 20 52 True) (\<lambda>c.
         bindE (copySkin scale c 8 20 4 12 16 52 True) (\<lambda>c.
         bindE (copySkin scale c 12 20 4 12 28 52 True) (\<lambda>c.
         bindE (copySkin scale c 44 16 4 4 36 48 True) (\<lambda>c.
         bindE (copySkin scale c 48 16 4 4 40 48 True) (\<lambda>c.
         bindE (copySkin scale c 40 20 4 12 40 52 True) (\<lambda>c.
         bindE (copySkin scale c 44 20 4 12 36 52 True) (\<lambda>c.
         bindE (copySkin scale c 48 20 4 12 32 52 True) (\<lambda>c.
         copySkin scale c 52 20 4 12 44 52 True))))))))))))"

definition checkArea :: "real \<Rightarrow> canvas \<Rightarrow> real \<Rightarrow> real \<Rightarrow> real \<Rightarrow> real \<Rightarrow> error + bool" where
  "checkArea scale skinContext x y w h =
     hasTransparency skinContext (x * scale) (y * scale) (w * scale) (h * scale)"

text \<open>
  The operator \<^verbatim>\<open>||\<close> on two calls: the second is made only when the first returned
  \<^verbatim>\<open>false\<close>.
\<close>

definition orElse :: "error + bool \<Rightarrow> error + bool \<Rightarrow> error + bool" where
  "orElse a b = bindE a (\<lambda>r. if r then Inr True else b)"

definition isSlimSkin :: "canvas \<Rightarrow> nat \<Rightarrow> error + bool" where
  "isSlimSkin skinContext width =
     (let scale = computeSkinScale width
      in orElse (checkArea scale skinContext 50 16 2 4)
        (orElse (checkArea scale skinContext 54 20 2 12)
        (orElse (checkArea scale skinContext 42 48 2 4)
                (checkArea scale skinContext 46 52 2 12))))"

subsection \<open>The rectangles the two heuristics are specified by\<close>

text \<open>
  The twelve rules of the legacy upgrade, as \<open>(sX, sY, w, h, dX, dY)\<close> at scale 1, and the
  four probe regions of the slim detector, as \<open>(x0, y0, w, h)\<close>.
\<close>

definition legacyRules :: "(nat \<times> nat \<times> nat \<times> nat \<times> nat \<times> nat) list" where
  "legacyRules =
     [(4, 16, 4, 4, 20, 48), (8, 16, 4, 4, 24, 48), (0, 20, 4, 12, 24, 52),
      (4, 20, 4, 12, 20, 52), (8, 20, 4, 12, 16, 52), (12, 20, 4, 12, 28, 52),
      (44, 16, 4, 4, 36, 48), (48, 16, 4, 4, 40, 48), (40, 20, 4, 12, 40, 52),
      (44, 20, 4, 12, 36, 52), (48, 20, 4, 12, 32, 52), (52, 20, 4, 12, 44, 52)]"

definition inRect :: "nat \<Rightarrow> nat \<Rightarrow> nat \<Rightarrow> nat \<Rightarrow> nat \<Rightarrow> nat \<Rightarrow> bool" where
  "inRect x0 y0 w h x y = (x0 \<le> x \<and> x < x0 + w \<and> y0 \<le> y \<and> y < y0 + h)"

definition inDestination :: "nat \<Rightarrow> nat \<Rightarrow> bool" where
  "inDestination x y = list_ex (\<lambda>(sX, sY, w, h, dX, dY). inRect dX dY w h x y) legacyRules"

definition probeRegions :: "(nat \<times> nat \<times> nat \<times> nat) list" where
  "probeRegions = [(50, 16, 2, 4), (54, 20, 2, 12), (42, 48, 2, 4), (46, 52, 2, 12)]"

text \<open>
  Two rectangles \<open>(x, y, w, h)\<close> that share no pixel, and a list of rules in which no
  destination meets another rule's destination or a later rule's source: checks that can be
  run on \<open>legacyRules\<close>.
\<close>

definition rectsDisjoint ::
  "nat \<Rightarrow> nat \<Rightarrow> nat \<Rightarrow> nat \<Rightarrow> nat \<Rightarrow> nat \<Rightarrow> nat \<Rightarrow> nat \<Rightarrow> bool" where
  "rectsDisjoint x0 y0 w h x0' y0' w' h' =
     (x0 + w \<le> x0' \<or> x0' + w' \<le> x0 \<or> y0 + h \<le> y0' \<or> y0' + h' \<le> y0)"

fun rulesIndependent :: "(nat \<times> nat \<times> nat \<times> nat \<times> nat \<times> nat) list \<Rightarrow> bool" where
  "rulesIndependent [] = True"
| "rulesIndependent ((sX, sY, w, h, dX, dY) # rs) =
     (list_all (\<lambda>(sX', sY', w', h', dX', dY').
        rectsDisjoint dX dY w h dX' dY' w' h' \<and> rectsDisjoint sX' sY' w' h' dX dY w h) rs
      \<and> rulesIndependent rs)"

text \<open>
  The upgrade as the specification words it. \<open>mirrorCopy\<close> is one rule: the pixels of the
  destination rectangle that lie in the bitmap become the horizontal mirror image of the
  source rectangle, and no other pixel changes. \<open>applyRules\<close> applies the rules in order. The
  two are shown below to be what \<^verbatim>\<open>copyImage\<close> and, at width 64, \<^verbatim>\<open>convertSkinTo1_8\<close>
  compute.
\<close>

definition mirrorCopy :: "canvas \<Rightarrow> nat \<Rightarrow> nat \<Rightarrow> nat \<Rightarrow> nat \<Rightarrow> nat \<Rightarrow> nat \<Rightarrow> canvas" where
  "mirrorCopy c sX sY w h dX dY =
     c\<lparr>cpix := (\<lambda>x y k.
          if inRect dX dY w h x y \<and> k < 4 \<and> x < cwidth c \<and> y < cheight c
          then pixelAt c (sX + (w - 1 - (x - dX))) (sY + (y - dY)) k
          else cpix c x y k)\<rparr>"

definition applyRules :: "(nat \<times> nat \<times> nat \<times> nat \<times> nat \<times> nat) list \<Rightarrow> canvas \<Rightarrow> canvas" where
  "applyRules rs c = fold (\<lambda>(sX, sY, w, h, dX, dY) c. mirrorCopy c sX sY w h dX dY) rs c"

section \<open>Theorems\<close>

subsection \<open>Face layout of the skin convention\<close>

lemma uvFace_setUVs:
  "uvFace (setUVs u v w h d tw th) 0 =
     (let f = toFaceVertices tw th (u + w + d) (v + d) (u + w + d * 2) (v + h + d)
      in [f ! 3, f ! 2, f ! 0, f ! 1])"
  "uvFace (setUVs u v w h d tw th) (Suc 0) =
     (let f = toFaceVertices tw th u (v + d) (u + d) (v + d + h)
      in [f ! 3, f ! 2, f ! 0, f ! 1])"
  "uvFace (setUVs u v w h d tw th) 2 =
     (let f = toFaceVertices tw th (u + d) v (u + w + d) (v + d)
      in [f ! 3, f ! 2, f ! 0, f ! 1])"
  "uvFace (setUVs u v w h d tw th) 3 =
     (let f = toFaceVertices tw th (u + w + d) v (u + w * 2 + d) (v + d)
      in [f ! 0, f ! 1, f ! 3, f ! 2])"
  "uvFace (setUVs u v w h d tw th) 4 =
     (let f = toFaceVertices tw th (u + d) (v + d) (u + w + d) (v + d + h)
      in [f ! 3, f ! 2, f ! 0, f ! 1])"
  "uvFace (setUVs u v w h d tw th) 5 =
     (let f = toFaceVertices tw th (u + w + d * 2) (v + d) (u + w * 2 + d * 2) (v + h + d)
      in [f ! 3, f ! 2, f ! 0, f ! 1])"
  by (simp_all add: uvFace_def setUVs_def Let_def)

text \<open>
  Whatever the order of its four vertices, a face projected from a well-oriented pixel
  rectangle un-normalises to that rectangle.
\<close>

lemma pixelRect_face:
  assumes "x1 \<le> x2" "y1 \<le> y2" "set q = set (toFaceVertices 64 64 x1 y1 x2 y2)"
  shows "pixelRect 64 64 q = (x1, y1, x2, y2)"
  using assms
  by (simp add: pixelRect_def toFaceVertices_def toPixel_def Let_def min_def max_def)

lemma skinFaceRect_eqs:
  assumes "0 \<le> w" "0 \<le> h" "0 \<le> d"
  shows "skinFaceRect u v w h d 0 = (u + w + d, v + d, u + w + d * 2, v + h + d)"
    and "skinFaceRect u v w h d (Suc 0) = (u, v + d, u + d, v + d + h)"
    and "skinFaceRect u v w h d 2 = (u + d, v, u + w + d, v + d)"
    and "skinFaceRect u v w h d 3 = (u + w + d, v, u + w * 2 + d, v + d)"
    and "skinFaceRect u v w h d 4 = (u + d, v + d, u + w + d, v + d + h)"
    and "skinFaceRect u v w h d 5 = (u + w + d * 2, v + d, u + w * 2 + d * 2, v + h + d)"
  unfolding skinFaceRect_def setSkinUVs_def uvFace_setUVs Let_def
  using assms by (auto intro!: pixelRect_face simp: toFaceVertices_def)

lemma upt6: "[0..<6] = [0, Suc 0, 2, 3, 4, 5]"
  by (simp add: upt_rec)

text \<open>
  C1, as stated: for every box \<open>(width, height, depth)\<close> and atlas offset \<open>(u, v)\<close>
  projected with the skin convention, the six faces, mapped back to pixel space, all lie
  within the 64x64 canvas and no two of them overlap. \<^verbatim>\<open>setUVs\<close> has no bounds check:
  an 8x8x8 box placed at \<open>(60, 0)\<close> projects its right, bottom and back faces past the
  right edge of the canvas.
\<close>

theorem skin_faces_in_canvas_counterexample:
  "\<not> (skinFacesInCanvas 60 0 8 8 8 \<and> skinFacesDisjoint 60 0 8 8 8)"
  by (simp add: skinFacesInCanvas_def upt6 skinFaceRect_eqs inCanvas_def)

text \<open>
  C1, amended: for every box with non-negative \<open>width\<close>, \<open>height\<close> and \<open>depth\<close>
  and every atlas offset \<open>(u, v)\<close>, no two of the six faces' pixel rectangles overlap, and
  the six rectangles all lie within the 64x64 canvas exactly when \<open>0 \<le> u\<close>, \<open>0 \<le> v\<close>,
  \<open>u + 2 * width + 2 * depth \<le> 64\<close> and \<open>v + depth + height \<le> 64\<close>.
\<close>

theorem skin_faces_layout:
  assumes "0 \<le> w" "0 \<le> h" "0 \<le> d"
  shows "skinFacesDisjoint u v w h d \<and>
         (skinFacesInCanvas u v w h d \<longleftrightarrow>
            0 \<le> u \<and> 0 \<le> v \<and> u + 2 * w + 2 * d \<le> 64 \<and> v + d + h \<le> 64)"
proof
  show "skinFacesDisjoint u v w h d"
    using assms
    by (simp add: skinFacesDisjoint_def upt6 skinFaceRect_eqs [OF assms] rectOverlap_def)
  show "skinFacesInCanvas u v w h d \<longleftrightarrow>
          0 \<le> u \<and> 0 \<le> v \<and> u + 2 * w + 2 * d \<le> 64 \<and> v + d + h \<le> 64"
    using assms
    by (auto simp add: skinFacesInCanvas_def upt6 skinFaceRect_eqs [OF assms] inCanvas_def)
qed

theorem skin_faces_layout_witness:
  "skinFacesDisjoint 32 0 8 8 8 \<and> skinFacesInCanvas 32 0 8 8 8"
  using skin_faces_layout [of 8 8 8 32 0] by simp

subsection \<open>Elytra mirror law\<close>

text \<open>
  C7. For every left-wing pose with position \<open>(px, py)\<close> and rotation \<open>(rx, ry, rz)\<close>,
  \<^verbatim>\<open>updateRightWing\<close> sets the right wing's position x to \<open>- px\<close>, its position y to
  \<open>py\<close>, its rotation to \<open>(rx, - ry, - rz)\<close>; the left wing and the right wing's
  position z are left as they were.
\<close>

theorem updateRightWing_mirror:
  "position (leftWing e) = (px, py, pz) \<and> rotation (leftWing e) = (rx, ry, rz) \<longrightarrow>
     fst (position (rightWing (updateRightWing e))) = - px \<and>
     fst (snd (position (rightWing (updateRightWing e)))) = py \<and>
     snd (snd (position (rightWing (updateRightWing e)))) = snd (snd (position (rightWing e))) \<and>
     rotation (rightWing (updateRightWing e)) = (rx, - ry, - rz) \<and>
     leftWing (updateRightWing e) = leftWing e"
  by (cases "position (rightWing e)") (simp add: updateRightWing_def)

theorem updateRightWing_mirror_witness:
  "rightWing (updateRightWing
     \<lparr>leftWing = \<lparr>position = (5, 0, 0), rotation = (1 / 4, 1 / 100, 1 / 4)\<rparr>,
      rightWing = \<lparr>position = (0, 0, 0), rotation = (0, 0, 0)\<rparr>\<rparr>)
   = \<lparr>position = (- 5, 0, 0), rotation = (1 / 4, - (1 / 100), - (1 / 4))\<rparr>"
  using updateRightWing_mirror
    [of "\<lparr>leftWing = \<lparr>position = (5, 0, 0), rotation = (1 / 4, 1 / 100, 1 / 4)\<rparr>,
          rightWing = \<lparr>position = (0, 0, 0), rotation = (0, 0, 0)\<rparr>\<rparr>" 5 0 0 "1 / 4" "1 / 100" "1 / 4"]
  by (simp add: updateRightWing_def)

subsection \<open>Back equipment round trip\<close>

text \<open>
  C10. For every value \<open>v\<close> among cape, elytra and null, assigning \<^verbatim>\<open>backEquipment = v\<close>
  and reading it back returns \<open>v\<close>; after the assignment the cape is visible exactly when
  \<open>v\<close> is cape, the elytra exactly when \<open>v\<close> is elytra, and the two are never both visible.
\<close>

theorem backEquipment_set_get:
  "getBackEquipment (setBackEquipment v p) = v \<and>
   capeVisible (setBackEquipment v p) = (v = Some Cape) \<and>
   elytraVisible (setBackEquipment v p) = (v = Some Elytra) \<and>
   \<not> (capeVisible (setBackEquipment v p) \<and> elytraVisible (setBackEquipment v p))"
proof (cases v)
  case None
  then show ?thesis by (simp add: getBackEquipment_def setBackEquipment_def)
next
  case (Some b)
  then show ?thesis by (cases b) (simp_all add: getBackEquipment_def setBackEquipment_def)
qed

theorem backEquipment_set_get_witness:
  "getBackEquipment (setBackEquipment (Some Elytra) \<lparr>capeVisible = True, elytraVisible = False\<rparr>)
     = Some Elytra \<and>
   \<not> capeVisible (setBackEquipment (Some Elytra) \<lparr>capeVisible = True, elytraVisible = False\<rparr>)"
  using backEquipment_set_get [of "Some Elytra" "\<lparr>capeVisible = True, elytraVisible = False\<rparr>"]
  by simp

subsection \<open>Face rotation is a cyclic shift\<close>

text \<open>
  For a non-negative shift every index stays in range, and \<^verbatim>\<open>rotateArray\<close> is the left
  rotation of the list.
\<close>

lemma rotateArray_rotate:
  assumes "0 \<le> s"
  shows "rotateArray arr s = map Some (rotate (nat s) arr)"
proof (rule nth_equalityI)
  show "length (rotateArray arr s) = length (map Some (rotate (nat s) arr))"
    by (simp add: rotateArray_def)
next
  fix i assume "i < length (rotateArray arr s)"
  then have i: "i < length arr" by (simp add: rotateArray_def)
  then have pos: "0 < int (length arr)" by (cases arr) simp_all
  let ?k = "(int i + s) mod int (length arr)"
  have rem: "js_rem (int i + s) (int (length arr)) = ?k"
    using assms by (simp add: js_rem_def sgn_if)
  have lo: "0 \<le> ?k" and hi: "?k < int (length arr)"
    using pos by simp_all
  have k: "nat ?k = (nat s + i) mod length arr"
    using assms by (simp add: nat_mod_distrib nat_add_distrib add.commute)
  have "rotateArray arr s ! i = js_index arr (js_rem (int i + s) (int (length arr)))"
    using i by (simp add: rotateArray_def)
  also have "\<dots> = Some (arr ! nat ?k)"
    using lo hi by (simp add: rem js_index_def)
  also have "\<dots> = Some (rotate (nat s) arr ! i)"
    using i by (simp add: k nth_rotate)
  finally show "rotateArray arr s ! i = map Some (rotate (nat s) arr) ! i"
    using i by simp
qed

lemma rot4:
  "rotate 0 [a, b, c, d] = [a, b, c, d]"
  "rotate (Suc 0) [a, b, c, d] = [b, c, d, a]"
  "rotate 2 [a, b, c, d] = [c, d, a, b]"
  "rotate 3 [a, b, c, d] = [d, a, b, c]"
  by (simp_all add: rotate_def numeral_2_eq_2 numeral_3_eq_3)

text \<open>The closure returns four vertices for every face that has a uv rectangle.\<close>

lemma toFaceVerticesJson_length:
  assumes "faceOk fc"
  shows "\<exists>vs. toFaceVerticesJson fc = Inr vs \<and> length vs = 4"
proof -
  obtain f where fc: "fc = Some f" and "uv f \<noteq> None"
    using assms by (cases fc) (simp_all add: faceOk_def)
  then obtain a b c d where uv: "uv f = Some (a, b, c, d)" by (cases "uv f") auto
  show ?thesis
    by (simp add: toFaceVerticesJson_def fc uv Let_def) (simp add: rotateArray_def)
qed

lemma toFaceVerticesJson_rotation:
  assumes "uv f = Some (a, b, c, d)" "0 \<le> \<lfloor>(case ro of None \<Rightarrow> 0 | Some r \<Rightarrow> r) / 90\<rfloor>"
  shows "toFaceVerticesJson (Some (f\<lparr>frotation := ro\<rparr>))
     = Inr (map Some (rotate (nat \<lfloor>(case ro of None \<Rightarrow> 0 | Some r \<Rightarrow> r) / 90\<rfloor>)
         [(a / 16, 1 - d / 16), (c / 16, 1 - d / 16), (c / 16, 1 - b / 16), (a / 16, 1 - b / 16)]))"
  using assms by (simp add: toFaceVerticesJson_def rotateArray_rotate)

text \<open>
  What \<^verbatim>\<open>setJsonUVs\<close> stores for a face is what the closure returned for that face.
\<close>

lemma list_of_four: "length vs = 4 \<Longrightarrow> vs = [vs ! 0, vs ! 1, vs ! 2, vs ! 3]"
  by (auto simp add: numeral_eq_Suc length_Suc_conv)

lemma setJsonUVs_face:
  assumes "setJsonUVs (Some fs) = Inr uvs" "toFaceVerticesJson (getFace fs m) = Inr vs"
    "length vs = 4"
  shows "faceOfAttr uvs (slot m) = vs"
proof -
  note vs = list_of_four [OF assms(3)]
  from assms(1) obtain vN vE vS vW vU vD where
    v: "toFaceVerticesJson (north fs) = Inr vN" "toFaceVerticesJson (east fs) = Inr vE"
       "toFaceVerticesJson (south fs) = Inr vS" "toFaceVerticesJson (west fs) = Inr vW"
       "toFaceVerticesJson (up fs) = Inr vU" "toFaceVerticesJson (down fs) = Inr vD"
    by (auto simp add: setJsonUVs_def bindE_def split: sum.splits)
  have u: "uvs = [vE ! 3, vE ! 2, vE ! 0, vE ! 1, vW ! 3, vW ! 2, vW ! 0, vW ! 1,
                  vU ! 3, vU ! 2, vU ! 0, vU ! 1, vD ! 3, vD ! 2, vD ! 0, vD ! 1,
                  vS ! 3, vS ! 2, vS ! 0, vS ! 1, vN ! 3, vN ! 2, vN ! 0, vN ! 1]"
    using assms(1) by (simp add: setJsonUVs_def bindE_def v)
  show ?thesis
  proof (cases m)
    case North
    then have "vN = vs" using assms(2) v by simp
    then show ?thesis by (subst vs) (simp add: faceOfAttr_def u North)
  next
    case East
    then have "vE = vs" using assms(2) v by simp
    then show ?thesis by (subst vs) (simp add: faceOfAttr_def u East)
  next
    case South
    then have "vS = vs" using assms(2) v by simp
    then show ?thesis by (subst vs) (simp add: faceOfAttr_def u South)
  next
    case West
    then have "vW = vs" using assms(2) v by simp
    then show ?thesis by (subst vs) (simp add: faceOfAttr_def u West)
  next
    case Up
    then have "vU = vs" using assms(2) v by simp
    then show ?thesis by (subst vs) (simp add: faceOfAttr_def u Up)
  next
    case Down
    then have "vD = vs" using assms(2) v by simp
    then show ?thesis by (subst vs) (simp add: faceOfAttr_def u Down)
  qed
qed

lemma setJsonUVs_total:
  assumes "facesOk (Some fs)"
  shows "\<exists>uvs. setJsonUVs (Some fs) = Inr uvs \<and> length uvs = 24"
proof -
  have ok: "faceOk (north fs)" "faceOk (east fs)" "faceOk (south fs)" "faceOk (west fs)"
    "faceOk (up fs)" "faceOk (down fs)"
    using assms by (simp_all add: facesOk_def)
  obtain vN vE vS vW vU vD where
    v: "toFaceVerticesJson (north fs) = Inr vN" "toFaceVerticesJson (east fs) = Inr vE"
       "toFaceVerticesJson (south fs) = Inr vS" "toFaceVerticesJson (west fs) = Inr vW"
       "toFaceVerticesJson (up fs) = Inr vU" "toFaceVerticesJson (down fs) = Inr vD"
    using ok [THEN toFaceVerticesJson_length] by blast
  show ?thesis
    by (simp add: setJsonUVs_def bindE_def v)
qed

lemma getFace_declareRotation:
  "getFace (declareRotation n r fs) m =
     (if m = n then map_option (\<lambda>f. f\<lparr>frotation := r\<rparr>) (getFace fs n) else getFace fs m)"
  by (cases n; cases m) (simp_all add: declareRotation_def)

lemma facesOk_declareRotation:
  assumes "facesOk (Some fs)"
  shows "facesOk (Some (declareRotation n r fs))"
proof -
  have "faceOk (map_option (\<lambda>f. f\<lparr>frotation := r\<rparr>) fc)" if "faceOk fc" for fc
    using that by (cases fc) (simp_all add: faceOk_def)
  then show ?thesis
    using assms by (cases n) (simp_all add: facesOk_def declareRotation_def)
qed

lemma facesOk_getFace: "facesOk (Some fs) \<Longrightarrow> faceOk (getFace fs m)"
  by (cases m) (simp_all add: facesOk_def)

text \<open>The version of \<^verbatim>\<open>src/src/model.ts\<close> never reads a rotation.\<close>

lemma toFaceVerticesModelTs_rotation:
  "toFaceVerticesModelTs (map_option (\<lambda>f. f\<lparr>frotation := r\<rparr>) fc) = toFaceVerticesModelTs fc"
  by (cases fc) (simp_all add: toFaceVerticesModelTs_def)

lemma setJsonUVsModelTs_rotation:
  "setJsonUVsModelTs (Some (declareRotation n r fs)) = setJsonUVsModelTs (Some fs)"
  by (cases n) (simp_all add: setJsonUVsModelTs_def declareRotation_def toFaceVerticesModelTs_rotation)

text \<open>
  C2, as stated: the claim names \<^verbatim>\<open>setJsonUVs\<close> of both versions of the model file. In
  \<^verbatim>\<open>src/src/model.ts\<close> a declared rotation changes nothing: with \<open>rotation: 90\<close> on the north
  face, whose uv rectangle is \<open>[0, 0, 16, 8]\<close>, the four vertices stored for that face are
  those of the unrotated projection, which differ from their shift by one position.
\<close>

theorem setJsonUVs_model_ts_ignores_rotation:
  "faceOfAttr (uvsOf (setJsonUVsModelTs (Some (declareRotation North (Some 90)
       \<lparr>north = Some \<lparr>uv = Some (0, 0, 16, 8), frotation = None\<rparr>,
        east = Some \<lparr>uv = Some (0, 0, 16, 16), frotation = None\<rparr>,
        south = Some \<lparr>uv = Some (0, 0, 16, 16), frotation = None\<rparr>,
        west = Some \<lparr>uv = Some (0, 0, 16, 16), frotation = None\<rparr>,
        up = Some \<lparr>uv = Some (0, 0, 16, 16), frotation = None\<rparr>,
        down = Some \<lparr>uv = Some (0, 0, 16, 16), frotation = None\<rparr>\<rparr>)))) (slot North)
     = [Some (0, 1 / 2), Some (1, 1 / 2), Some (1, 1), Some (0, 1)]
   \<and> faceOfAttr (uvsOf (setJsonUVsModelTs (Some (declareRotation North None
       \<lparr>north = Some \<lparr>uv = Some (0, 0, 16, 8), frotation = None\<rparr>,
        east = Some \<lparr>uv = Some (0, 0, 16, 16), frotation = None\<rparr>,
        south = Some \<lparr>uv = Some (0, 0, 16, 16), frotation = None\<rparr>,
        west = Some \<lparr>uv = Some (0, 0, 16, 16), frotation = None\<rparr>,
        up = Some \<lparr>uv = Some (0, 0, 16, 16), frotation = None\<rparr>,
        down = Some \<lparr>uv = Some (0, 0, 16, 16), frotation = None\<rparr>\<rparr>)))) (slot North)
     = [Some (0, 1 / 2), Some (1, 1 / 2), Some (1, 1), Some (0, 1)]
   \<and> rotate1 [Some (0, 1 / 2), Some (1, 1 / 2), Some (1, 1), Some (0, 1 :: real)]
     \<noteq> [Some (0 :: real, 1 / 2), Some (1, 1 / 2), Some (1, 1), Some (0, 1)]"
  by (simp add: setJsonUVsModelTs_def toFaceVerticesModelTs_def declareRotation_def
      bindE_def faceOfAttr_def uvsOf_def)

text \<open>
  C2, amended: in \<^verbatim>\<open>src/unnamed/part_000\<close>, for every element whose six faces have a uv
  rectangle and every face \<open>n\<close> of it with the rectangle \<open>[a, b, c, d]\<close>, \<^verbatim>\<open>setJsonUVs\<close>
  returns and fills the 24 entries of the attribute; without a rotation the four vertices
  stored for \<open>n\<close> are the projection \<open>(a/16, 1 - d/16), (c/16, 1 - d/16), (c/16, 1 - b/16),
  (a/16, 1 - b/16)\<close>; with a declared rotation \<open>r\<close> among 0, 90, 180 and 270 they are these
  four shifted cyclically by \<open>\<lfloor>r / 90\<rfloor>\<close> positions (fewer than four), by one position for
  \<open>r = 90\<close>; and the vertices stored for the other five faces are the same with and without
  the rotation. In \<^verbatim>\<open>src/src/model.ts\<close> the attribute is the same with and without the
  rotation.
\<close>

theorem face_rotation_shift:
  assumes "r \<in> {0, 90, 180, 270}" "facesOk (Some fs)" "getFace fs n = Some f"
    "uv f = Some (a, b, c, d)"
  shows "\<exists>rot unrot.
      setJsonUVs (Some (declareRotation n (Some r) fs)) = Inr rot \<and> length rot = 24
    \<and> setJsonUVs (Some (declareRotation n None fs)) = Inr unrot \<and> length unrot = 24
    \<and> faceOfAttr unrot (slot n) = [Some (a / 16, 1 - d / 16), Some (c / 16, 1 - d / 16),
                                   Some (c / 16, 1 - b / 16), Some (a / 16, 1 - b / 16)]
    \<and> faceOfAttr rot (slot n) = rotate (nat \<lfloor>r / 90\<rfloor>) (faceOfAttr unrot (slot n))
    \<and> nat \<lfloor>r / 90\<rfloor> < 4
    \<and> (r = 90 \<longrightarrow> faceOfAttr rot (slot n) = rotate1 (faceOfAttr unrot (slot n)))
    \<and> (\<forall>m. m \<noteq> n \<longrightarrow> faceOfAttr rot (slot m) = faceOfAttr unrot (slot m))
    \<and> setJsonUVsModelTs (Some (declareRotation n (Some r) fs))
        = setJsonUVsModelTs (Some (declareRotation n None fs))"
proof -
  let ?xs = "[(a / 16, 1 - d / 16), (c / 16, 1 - d / 16), (c / 16, 1 - b / 16), (a / 16, 1 - b / 16)]"
  let ?R = "declareRotation n (Some r) fs" and ?U = "declareRotation n None fs"
  have fl: "\<lfloor>r / 90\<rfloor> \<in> {0, 1, 2, 3}" using assms(1) by auto
  have nn: "0 \<le> \<lfloor>r / 90\<rfloor>" using assms(1) by auto
  obtain rot where rot: "setJsonUVs (Some ?R) = Inr rot" "length rot = 24"
    using setJsonUVs_total [OF facesOk_declareRotation [OF assms(2)]] by blast
  obtain unrot where unrot: "setJsonUVs (Some ?U) = Inr unrot" "length unrot = 24"
    using setJsonUVs_total [OF facesOk_declareRotation [OF assms(2)]] by blast
  have tU: "toFaceVerticesJson (getFace ?U n) = Inr (map Some ?xs)"
    using toFaceVerticesJson_rotation [OF assms(4), of None]
    by (simp add: getFace_declareRotation assms(3))
  have tR: "toFaceVerticesJson (getFace ?R n) = Inr (map Some (rotate (nat \<lfloor>r / 90\<rfloor>) ?xs))"
    using toFaceVerticesJson_rotation [OF assms(4), of "Some r"] nn
    by (simp add: getFace_declareRotation assms(3))
  have fU: "faceOfAttr unrot (slot n) = map Some ?xs"
    by (rule setJsonUVs_face [OF unrot(1) tU]) simp
  have fR: "faceOfAttr rot (slot n) = map Some (rotate (nat \<lfloor>r / 90\<rfloor>) ?xs)"
    by (rule setJsonUVs_face [OF rot(1) tR]) simp
  have 1: "faceOfAttr rot (slot n) = rotate (nat \<lfloor>r / 90\<rfloor>) (faceOfAttr unrot (slot n))"
    by (simp only: fU fR rotate_map)
  have 2: "nat \<lfloor>r / 90\<rfloor> < 4" using fl by auto
  have 3: "r = 90 \<longrightarrow> faceOfAttr rot (slot n) = rotate1 (faceOfAttr unrot (slot n))"
    unfolding fU fR by (simp add: rot4)
  have 4: "faceOfAttr rot (slot m) = faceOfAttr unrot (slot m)" if "m \<noteq> n" for m
  proof -
    obtain vs where vs: "toFaceVerticesJson (getFace fs m) = Inr vs" "length vs = 4"
      using toFaceVerticesJson_length [OF facesOk_getFace [OF assms(2)]] by blast
    have "toFaceVerticesJson (getFace ?R m) = Inr vs" "toFaceVerticesJson (getFace ?U m) = Inr vs"
      using that vs(1) by (simp_all add: getFace_declareRotation)
    then have "faceOfAttr rot (slot m) = vs" "faceOfAttr unrot (slot m) = vs"
      using setJsonUVs_face [OF rot(1) _ vs(2)] setJsonUVs_face [OF unrot(1) _ vs(2)] by blast+
    then show ?thesis by simp
  qed
  have 5: "setJsonUVsModelTs (Some ?R) = setJsonUVsModelTs (Some ?U)"
    by (simp only: setJsonUVsModelTs_rotation)
  have 0: "faceOfAttr unrot (slot n) = [Some (a / 16, 1 - d / 16), Some (c / 16, 1 - d / 16),
                                   Some (c / 16, 1 - b / 16), Some (a / 16, 1 - b / 16)]"
    using fU by simp
  from rot unrot 0 1 2 3 4 5 show ?thesis by blast
qed

theorem face_rotation_shift_witness:
  "faceOfAttr (uvsOf (setJsonUVs (Some (declareRotation North (Some 90)
       \<lparr>north = Some \<lparr>uv = Some (0, 0, 16, 8), frotation = None\<rparr>,
        east = Some \<lparr>uv = Some (0, 0, 16, 16), frotation = None\<rparr>,
        south = Some \<lparr>uv = Some (0, 0, 16, 16), frotation = None\<rparr>,
        west = Some \<lparr>uv = Some (0, 0, 16, 16), frotation = None\<rparr>,
        up = Some \<lparr>uv = Some (0, 0, 16, 16), frotation = None\<rparr>,
        down = Some \<lparr>uv = Some (0, 0, 16, 16), frotation = None\<rparr>\<rparr>)))) (slot North)
     = [Some (1, 1 / 2), Some (1, 1), Some (0, 1), Some (0, 1 / 2)]"
  (is "faceOfAttr (uvsOf (setJsonUVs (Some (declareRotation North (Some 90) ?fs)))) _ = _")
proof -
  have h: "(90::real) \<in> {0, 90, 180, 270}" "facesOk (Some ?fs)"
    "getFace ?fs North = Some \<lparr>uv = Some (0, 0, 16, 8), frotation = None\<rparr>"
    "uv \<lparr>uv = Some (0, 0, 16, 8), frotation = None\<rparr> = Some (0, 0, 16, 8)"
    by (simp_all add: facesOk_def faceOk_def)
  from face_rotation_shift [OF h] obtain rot unrot where
    r: "setJsonUVs (Some (declareRotation North (Some 90) ?fs)) = Inr rot"
    and u: "faceOfAttr unrot (slot North) = [Some (0 / 16, 1 - 8 / 16), Some (16 / 16, 1 - 8 / 16),
                                   Some (16 / 16, 1 - 0 / 16), Some (0 / 16, 1 - 0 / 16)]"
    and s: "(90::real) = 90 \<longrightarrow> faceOfAttr rot (slot North) = rotate1 (faceOfAttr unrot (slot North))"
    by blast
  from s u have "faceOfAttr rot (slot North) = [Some (1, 1 / 2), Some (1, 1), Some (0, 1), Some (0, 1 / 2)]"
    by simp
  then show ?thesis by (simp add: r uvsOf_def)
qed

subsection \<open>Slim toggle\<close>

text \<open>
  C8. For every value \<open>v\<close> among slim and default and every starting skeleton state, setting
  \<^verbatim>\<open>modelType\<close> to \<open>v\<close> twice in a row leaves the same state as setting it once: the flag,
  the scale and UV placement of both layers of both arms, and the two pivot offsets.
\<close>

theorem setModelType_idempotent:
  "setModelType v (setModelType v s) = setModelType v s"
  by (cases v)
    (simp_all add: setModelType_def modelListeners_def rightArmListener_def rightArm2Listener_def
      rightArmPivotListener_def leftArmListener_def leftArm2Listener_def leftArmPivotListener_def
      set_x_def split: prod.split)

theorem setModelType_idempotent_witness:
  "rightArmMesh_scale (setModelType Slim (setModelType Slim
     \<lparr>slim = False,
      rightArmMesh_scale = (1, 1, 1), rightArmBox_uv = [],
      rightArm2Mesh_scale = (1, 1, 1), rightArm2Box_uv = [],
      rightArmPivot_position = (0, - 4, 0),
      leftArmMesh_scale = (1, 1, 1), leftArmBox_uv = [],
      leftArm2Mesh_scale = (1, 1, 1), leftArm2Box_uv = [],
      leftArmPivot_position = (0, - 4, 0)\<rparr>)) = (3, 12, 4)"
  unfolding setModelType_idempotent
  by (simp add: setModelType_def modelListeners_def rightArmListener_def rightArm2Listener_def
      rightArmPivotListener_def leftArmListener_def leftArm2Listener_def leftArmPivotListener_def)

subsection \<open>Hat slots\<close>

lemma upt9: "[0..<9] = [0, Suc 0, 2, 3, 4, 5, 6, 7, 8]"
  by (simp add: upt_conv_Cons)

lemma hat9_mountBlock:
  assumes "\<And>h q. hat9 (setField h q) = hat9 q"
  shows "hat9 (mountBlock c n setField p) = hat9 p"
  by (cases c) (simp_all add: mountBlock_def Let_def assms)

text \<open>No block assigns \<^verbatim>\<open>hat9\<close>: whatever the entries, the field keeps its initial \<^verbatim>\<open>null\<close>.\<close>

lemma hat9_never_mounted: "hat9 (mountHats cs) = None"
  unfolding mountHats_def Let_def by (simp add: hat9_mountBlock)

text \<open>
  C9 says that a non-null \<open>i\<close>-th entry of \<^verbatim>\<open>hatCanvases\<close> is mounted into the slot
  \<open>hat(i+1)\<close>, for every \<open>i\<close> from 0 to 8. With nine entries, built from the documents 0 to 8,
  the constructor leaves \<^verbatim>\<open>hat9\<close> null; the ninth object, built from document 8, is stored in
  \<^verbatim>\<open>hat8\<close> under the name \<^verbatim>\<open>"hat8"\<close>, replacing the eighth object in that field, while all nine
  objects are children of the head.
\<close>

theorem mountHats_ninth_entry:
  "hat9 (mountHats (map (\<lambda>i. Some \<lparr>model = i\<rparr>) [0..<9::nat])) = None \<and>
   hat8 (mountHats (map (\<lambda>i. Some \<lparr>model = i\<rparr>) [0..<9::nat]))
     = Some \<lparr>jsonModel = 8, objName = ''hat8'', objPosition = (8, 8, 8),
             objRotationY = pi, objId = 8\<rparr> \<and>
   map jsonModel (headChildren (mountHats (map (\<lambda>i. Some \<lparr>model = i\<rparr>) [0..<9::nat])))
     = [0..<9]"
  by (simp add: upt9 mountHats_def mountBlock_def canvasAt_def Let_def)

subsection \<open>Cuboid interpreter: the element loop\<close>

lemma addMeshes_prefix: "\<exists>ms. childrenOf (addMeshes f els ch) = ch @ ms"
proof (induction els arbitrary: ch)
  case Nil
  then show ?case by (simp add: childrenOf_def)
next
  case (Cons el els)
  show ?case
  proof (cases "f el")
    case (Inl e)
    then show ?thesis by (simp add: childrenOf_def)
  next
    case (Inr m)
    from Cons.IH [of "ch @ [m]"] obtain ms where
      "childrenOf (addMeshes f els (ch @ [m])) = (ch @ [m]) @ ms" ..
    then show ?thesis by (simp add: Inr)
  qed
qed

text \<open>
  When the loop body returns for the elements \<open>0 .. i\<close>, the child at position \<open>i\<close> after
  the children the object had is the mesh of element \<open>i\<close>.
\<close>

lemma addMeshes_nth:
  assumes "i < length els" "\<forall>j\<le>i. \<exists>m. f (els ! j) = Inr m" "f (els ! i) = Inr mesh"
  shows "length ch + i < length (childrenOf (addMeshes f els ch)) \<and>
         childrenOf (addMeshes f els ch) ! (length ch + i) = mesh"
  using assms
proof (induction els arbitrary: ch i)
  case Nil
  then show ?case by simp
next
  case (Cons el els)
  from Cons.prems(2) [rule_format, of 0] obtain m where m: "f el = Inr m" by auto
  show ?case
  proof (cases i)
    case 0
    obtain ms where ms: "childrenOf (addMeshes f els (ch @ [m])) = (ch @ [m]) @ ms"
      using addMeshes_prefix by blast
    have "mesh = m" using Cons.prems(3) m 0 by simp
    then show ?thesis by (simp add: m ms 0 nth_append)
  next
    case (Suc i')
    have 1: "i' < length els" using Cons.prems(1) Suc by simp
    have 2: "\<forall>j\<le>i'. \<exists>m. f (els ! j) = Inr m"
    proof (intro allI impI)
      fix j assume "j \<le> i'"
      then have "Suc j \<le> i" using Suc by simp
      from Cons.prems(2) [rule_format, OF this] show "\<exists>m. f (els ! j) = Inr m" by simp
    qed
    have 3: "f (els ! i') = Inr mesh" using Cons.prems(3) Suc by simp
    from Cons.IH [OF 1 2 3, of "ch @ [m]"] show ?thesis
      by (simp add: m Suc)
  qed
qed

lemma addMeshes_total:
  assumes "\<forall>el\<in>set els. \<exists>m. f el = Inr m"
  shows "\<exists>ms. addMeshes f els ch = Inr (ch @ ms) \<and> length ms = length els"
  using assms
proof (induction els arbitrary: ch)
  case Nil
  then show ?case by simp
next
  case (Cons el els)
  from Cons.prems obtain m where m: "f el = Inr m" by auto
  from Cons.prems have "\<forall>el\<in>set els. \<exists>m. f el = Inr m" by simp
  from Cons.IH [OF this, of "ch @ [m]"] obtain ms where
    "addMeshes f els (ch @ [m]) = Inr ((ch @ [m]) @ ms)" "length ms = length els" by blast
  then have "addMeshes f (el # els) ch = Inr (ch @ (m # ms)) \<and> length (m # ms) = length (el # els)"
    by (simp add: m)
  then show ?case by blast
qed

subsection \<open>Cuboid interpreter: placement of an unrotated element\<close>

lemma corner:
  "(t - f) / 2 - \<bar>t - f\<bar> / 2 + f = min f t"
  "\<bar>t - f\<bar> / 2 + (t - f) / 2 + f = max f t" for t f :: real
  by (auto simp: abs_if min_def max_def field_simps)

lemma setJsonUVsModelTs_total:
  assumes "facesOk (Some fs)"
  shows "\<exists>uvs. setJsonUVsModelTs (Some fs) = Inr uvs \<and> length uvs = 24"
proof -
  have t: "\<exists>vs. toFaceVerticesModelTs fc = Inr vs" if fok: "faceOk fc" for fc
  proof -
    obtain f where fc: "fc = Some f" and "uv f \<noteq> None"
      using fok by (cases fc) (simp_all add: faceOk_def)
    then obtain a b c d where uv: "uv f = Some (a, b, c, d)" by (cases "uv f") auto
    show ?thesis by (simp add: toFaceVerticesModelTs_def fc uv)
  qed
  have ok: "faceOk (north fs)" "faceOk (east fs)" "faceOk (south fs)" "faceOk (west fs)"
    "faceOk (up fs)" "faceOk (down fs)"
    using assms by (simp_all add: facesOk_def)
  obtain vN vE vS vW vU vD where
    v: "toFaceVerticesModelTs (north fs) = Inr vN" "toFaceVerticesModelTs (east fs) = Inr vE"
       "toFaceVerticesModelTs (south fs) = Inr vS" "toFaceVerticesModelTs (west fs) = Inr vW"
       "toFaceVerticesModelTs (up fs) = Inr vU" "toFaceVerticesModelTs (down fs) = Inr vD"
    using ok [THEN t] by blast
  show ?thesis
    by (simp add: setJsonUVsModelTs_def bindE_def v)
qed

text \<open>The loop body returns a mesh for every well-formed element, in both versions.\<close>

lemma elementMesh_total:
  assumes "wellFormed el" "\<And>fs. facesOk (Some fs) \<Longrightarrow> \<exists>uvs. setUV (Some fs) = Inr uvs"
  shows "\<exists>m. elementMesh setUV el = Inr m"
proof -
  obtain fx fy fz tx ty tz where ft: "efrom el = Some (fx, fy, fz)" "eto el = Some (tx, ty, tz)"
    using assms(1) by (auto simp add: wellFormed_def)
  obtain fs where fs: "efaces el = Some fs" "facesOk (Some fs)"
    using assms(1) by (cases "efaces el") (auto simp add: wellFormed_def facesOk_def)
  obtain uvs where uvs: "setUV (efaces el) = Inr uvs"
    using assms(2) [OF fs(2)] fs(1) by auto
  show ?thesis
  proof (cases "erotation el")
    case None
    then show ?thesis by (simp add: elementMesh_def ft uvs bindE_def Let_def)
  next
    case (Some r)
    then obtain p where "rorigin r = Some p"
      using assms(1) by (auto simp add: wellFormed_def)
    then show ?thesis by (simp add: elementMesh_def ft uvs bindE_def Let_def Some)
  qed
qed

lemma elementMesh_unrotated:
  assumes "elementMesh setUV el = Inr m" "erotation el = None"
    "efrom el = Some (fx, fy, fz)" "eto el = Some (tx, ty, tz)"
  shows "parameters (geometry m) = (\<bar>tx - fx\<bar>, \<bar>ty - fy\<bar>, \<bar>tz - fz\<bar>) \<and>
         boxSize (geometry m) = (\<bar>tx - fx\<bar>, \<bar>ty - fy\<bar>, \<bar>tz - fz\<bar>) \<and>
         boxCenter (geometry m) = (fx + (tx - fx) / 2, fy + (ty - fy) / 2, fz + (tz - fz) / 2) \<and>
         set (vertices (geometry m)) = {fx, tx} \<times> {fy, ty} \<times> {fz, tz} \<and>
         mposition m = (0, 0, 0) \<and>
         mquaternion m = (0, 0, 0, 1)"
proof -
  from assms(1) obtain uvs where uvs: "setUV (efaces el) = Inr uvs"
    by (cases "setUV (efaces el)") (simp_all add: elementMesh_def assms(3,4) bindE_def Let_def)
  have m: "m = newMesh
     \<lparr>parameters = (\<bar>tx - fx\<bar>, \<bar>ty - fy\<bar>, \<bar>tz - fz\<bar>),
      vertices = [(x, y, z). x \<leftarrow> [min fx tx, max fx tx], y \<leftarrow> [min fy ty, max fy ty],
                   z \<leftarrow> [min fz tz, max fz tz]],
      uvAttr = uvs\<rparr>"
    using assms(1)
    by (simp add: elementMesh_def assms(2,3,4) uvs bindE_def newBoxGeometry_def translate_def
        vadd_def Let_def corner)
  have bb: "boundingBox (geometry m)
      = ((min fx tx, min fy ty, min fz tz), (max fx tx, max fy ty, max fz tz))"
    by (simp add: boundingBox_def m newMesh_def)
  have p: "parameters (geometry m) = (\<bar>tx - fx\<bar>, \<bar>ty - fy\<bar>, \<bar>tz - fz\<bar>)"
    by (simp add: m newMesh_def)
  have s: "boxSize (geometry m) = (\<bar>tx - fx\<bar>, \<bar>ty - fy\<bar>, \<bar>tz - fz\<bar>)"
    by (simp add: boxSize_def bb) (auto simp: min_def max_def)
  have c: "boxCenter (geometry m)
           = (fx + (tx - fx) / 2, fy + (ty - fy) / 2, fz + (tz - fz) / 2)"
    by (simp add: boxCenter_def bb) (auto simp: min_def max_def field_simps)
  have vs: "set (vertices (geometry m)) = {fx, tx} \<times> {fy, ty} \<times> {fz, tz}"
    by (simp add: m newMesh_def) (auto simp: min_def max_def)
  have q: "mposition m = (0, 0, 0)" "mquaternion m = (0, 0, 0, 1)"
    by (simp_all add: m newMesh_def)
  from p s c vs q show ?thesis by simp
qed

text \<open>
  C3, as stated: the element \<open>from = [0, 0, 0]\<close>, \<open>to = [2, 2, 2]\<close> without rotation, and
  without \<^verbatim>\<open>faces\<close>, has corners and no rotation, yet the interpreter produces no box for
  it: \<^verbatim>\<open>setJsonUVs\<close> throws a \<^verbatim>\<open>TypeError\<close> before the mesh is added, in both versions.
\<close>

theorem updateModel_element_without_faces:
  "updateModel (Some \<lparr>elements = Some
      [\<lparr>efrom = Some (0, 0, 0), eto = Some (2, 2, 2), erotation = None, efaces = None\<rparr>]\<rparr>) []
     = Inl (TypeError, [])
   \<and> newJsonModelObjectModelTs (Some \<lparr>elements = Some
      [\<lparr>efrom = Some (0, 0, 0), eto = Some (2, 2, 2), erotation = None, efaces = None\<rparr>]\<rparr>)
     = Inl (TypeError, [])"
  by (simp add: updateModel_def newJsonModelObjectModelTs_def elementMesh_def setJsonUVs_def
      setJsonUVsModelTs_def bindE_def Let_def)

text \<open>
  C3, amended: for every document whose elements \<open>0 .. i\<close> are well formed (each has
  \<^verbatim>\<open>from\<close>, \<^verbatim>\<open>to\<close>, six faces with a uv rectangle, and an origin for a declared rotation)
  and whose element \<open>i\<close> has corners \<open>from\<close> and \<open>to\<close> and no rotation, the interpreter of
  either version (\<^verbatim>\<open>updateModel\<close> on an object with the children \<open>ch\<close>, the constructor of
  \<^verbatim>\<open>src/src/model.ts\<close> on a new object) adds, as the child at position \<open>i\<close> after the
  previous children, a box whose dimensions are \<open>\<bar>to - from\<bar>\<close> per axis (as \<^verbatim>\<open>parameters\<close>
  and as the extent of its vertices), whose corners are the eight combinations of the
  coordinates of \<open>from\<close> and \<open>to\<close>, and whose centre is \<open>from + (to - from) / 2\<close>; the mesh
  itself stays at the origin, unrotated, so these are document-space coordinates. When all
  elements are well formed, \<^verbatim>\<open>updateModel\<close> returns, having added one mesh per element.
\<close>

theorem updateModel_unrotated:
  assumes "elements doc = Some els" "i < length els" "\<forall>j\<le>i. wellFormed (els ! j)"
    "erotation (els ! i) = None"
    "efrom (els ! i) = Some (fx, fy, fz)" "eto (els ! i) = Some (tx, ty, tz)"
  shows "(\<forall>(r, n) \<in> {(updateModel (Some doc) ch, length ch), (newJsonModelObjectModelTs (Some doc), 0)}.
            n + i < length (childrenOf r) \<and>
            (let m = childrenOf r ! (n + i) in
               parameters (geometry m) = (\<bar>tx - fx\<bar>, \<bar>ty - fy\<bar>, \<bar>tz - fz\<bar>) \<and>
               boxSize (geometry m) = (\<bar>tx - fx\<bar>, \<bar>ty - fy\<bar>, \<bar>tz - fz\<bar>) \<and>
               boxCenter (geometry m)
                 = (fx + (tx - fx) / 2, fy + (ty - fy) / 2, fz + (tz - fz) / 2) \<and>
               set (vertices (geometry m)) = {fx, tx} \<times> {fy, ty} \<times> {fz, tz} \<and>
               mposition m = (0, 0, 0) \<and>
               mquaternion m = (0, 0, 0, 1))) \<and>
         ((\<forall>el\<in>set els. wellFormed el) \<longrightarrow>
            (\<exists>ms. updateModel (Some doc) ch = Inr (ch @ ms) \<and> length ms = length els))"
proof -
  have tot: "\<exists>m. elementMesh setJsonUVs el = Inr m" if "wellFormed el" for el
    using that by (rule elementMesh_total) (use setJsonUVs_total in blast)
  have totM: "\<exists>m. elementMesh setJsonUVsModelTs el = Inr m" if "wellFormed el" for el
    using that by (rule elementMesh_total) (use setJsonUVsModelTs_total in blast)
  have box: "n + i < length (childrenOf (addMeshes (elementMesh setUV) els c0)) \<and>
            (let m = childrenOf (addMeshes (elementMesh setUV) els c0) ! (n + i) in
               parameters (geometry m) = (\<bar>tx - fx\<bar>, \<bar>ty - fy\<bar>, \<bar>tz - fz\<bar>) \<and>
               boxSize (geometry m) = (\<bar>tx - fx\<bar>, \<bar>ty - fy\<bar>, \<bar>tz - fz\<bar>) \<and>
               boxCenter (geometry m)
                 = (fx + (tx - fx) / 2, fy + (ty - fy) / 2, fz + (tz - fz) / 2) \<and>
               set (vertices (geometry m)) = {fx, tx} \<times> {fy, ty} \<times> {fz, tz} \<and>
               mposition m = (0, 0, 0) \<and>
               mquaternion m = (0, 0, 0, 1))"
    if t: "\<And>el. wellFormed el \<Longrightarrow> \<exists>m. elementMesh setUV el = Inr m" and n: "n = length c0"
    for setUV c0 n
  proof -
    have all: "\<forall>j\<le>i. \<exists>m. elementMesh setUV (els ! j) = Inr m"
      using assms(3) t by blast
    then obtain mesh where mesh: "elementMesh setUV (els ! i) = Inr mesh" by blast
    note nth = addMeshes_nth [OF assms(2) all mesh, of c0]
    note un = elementMesh_unrotated [OF mesh assms(4,5,6)]
    show ?thesis
      unfolding n Let_def using nth un by simp
  qed
  have 1: "\<forall>(r, n) \<in> {(updateModel (Some doc) ch, length ch), (newJsonModelObjectModelTs (Some doc), 0)}.
            n + i < length (childrenOf r) \<and>
            (let m = childrenOf r ! (n + i) in
               parameters (geometry m) = (\<bar>tx - fx\<bar>, \<bar>ty - fy\<bar>, \<bar>tz - fz\<bar>) \<and>
               boxSize (geometry m) = (\<bar>tx - fx\<bar>, \<bar>ty - fy\<bar>, \<bar>tz - fz\<bar>) \<and>
               boxCenter (geometry m)
                 = (fx + (tx - fx) / 2, fy + (ty - fy) / 2, fz + (tz - fz) / 2) \<and>
               set (vertices (geometry m)) = {fx, tx} \<times> {fy, ty} \<times> {fz, tz} \<and>
               mposition m = (0, 0, 0) \<and>
               mquaternion m = (0, 0, 0, 1))"
    using box [of setJsonUVs "length ch" ch, OF tot refl]
      box [of setJsonUVsModelTs 0 "[]", OF totM]
    by (simp add: updateModel_def newJsonModelObjectModelTs_def assms(1))
  have 2: "(\<forall>el\<in>set els. wellFormed el) \<longrightarrow>
            (\<exists>ms. updateModel (Some doc) ch = Inr (ch @ ms) \<and> length ms = length els)"
  proof
    assume "\<forall>el\<in>set els. wellFormed el"
    then have "\<forall>el\<in>set els. \<exists>m. elementMesh setJsonUVs el = Inr m" using tot by blast
    from addMeshes_total [OF this, of ch]
    show "\<exists>ms. updateModel (Some doc) ch = Inr (ch @ ms) \<and> length ms = length els"
      by (simp add: updateModel_def assms(1))
  qed
  from 1 2 show ?thesis ..
qed

theorem updateModel_unrotated_witness:
  "map (\<lambda>m. (boxSize (geometry m), boxCenter (geometry m)))
     (childrenOf (updateModel (Some \<lparr>elements = Some
         [\<lparr>efrom = Some (0, 0, 0), eto = Some (2, 2, 2), erotation = None,
            efaces = Some \<lparr>north = Some \<lparr>uv = Some (0, 0, 16, 16), frotation = None\<rparr>,
                       east = Some \<lparr>uv = Some (0, 0, 16, 16), frotation = None\<rparr>,
                       south = Some \<lparr>uv = Some (0, 0, 16, 16), frotation = None\<rparr>,
                       west = Some \<lparr>uv = Some (0, 0, 16, 16), frotation = None\<rparr>,
                       up = Some \<lparr>uv = Some (0, 0, 16, 16), frotation = None\<rparr>,
                       down = Some \<lparr>uv = Some (0, 0, 16, 16), frotation = None\<rparr>\<rparr>\<rparr>]\<rparr>) []))
     = [((2, 2, 2), (1, 1, 1))]"
  (is "map _ (childrenOf (updateModel (Some ?doc) [])) = _")
proof -
  let ?el = "\<lparr>efrom = Some (0, 0, 0), eto = Some (2, 2, 2), erotation = None,
            efaces = Some \<lparr>north = Some \<lparr>uv = Some (0, 0, 16, 16), frotation = None\<rparr>,
                       east = Some \<lparr>uv = Some (0, 0, 16, 16), frotation = None\<rparr>,
                       south = Some \<lparr>uv = Some (0, 0, 16, 16), frotation = None\<rparr>,
                       west = Some \<lparr>uv = Some (0, 0, 16, 16), frotation = None\<rparr>,
                       up = Some \<lparr>uv = Some (0, 0, 16, 16), frotation = None\<rparr>,
                       down = Some \<lparr>uv = Some (0, 0, 16, 16), frotation = None\<rparr>\<rparr>\<rparr>"
  have h: "elements ?doc = Some [?el]" "0 < length [?el]" "\<forall>j\<le>0. wellFormed ([?el] ! j)"
    "erotation ([?el] ! 0) = None" "efrom ([?el] ! 0) = Some (0, 0, 0)"
    "eto ([?el] ! 0) = Some (2, 2, 2)"
    by (simp_all add: wellFormed_def facesOk_def faceOk_def)
  note t = updateModel_unrotated [OF h, of "[]"]
  from t have "\<exists>ms. updateModel (Some ?doc) [] = Inr ([] @ ms) \<and> length ms = length [?el]"
    by (simp add: wellFormed_def facesOk_def faceOk_def)
  then obtain m where m: "updateModel (Some ?doc) [] = Inr [m]"
    by (auto simp add: length_Suc_conv)
  from t have "boxSize (geometry (childrenOf (updateModel (Some ?doc) []) ! 0)) = (\<bar>2 - 0\<bar>, \<bar>2 - 0\<bar>, \<bar>2 - 0\<bar>)
    \<and> boxCenter (geometry (childrenOf (updateModel (Some ?doc) []) ! 0))
        = (0 + (2 - 0) / 2, 0 + (2 - 0) / 2, 0 + (2 - 0) / 2)"
    by (simp add: Let_def)
  then show ?thesis
    by (simp add: m childrenOf_def)
qed

subsection \<open>Cuboid interpreter: unsupported rotation axis\<close>

lemma axisVector_other:
  "a \<notin> {''x'', ''y'', ''z''} \<Longrightarrow> axisVector a = (0, 0, 0)"
  by (simp add: axisVector_def)

text \<open>
  What the loop body computes for an axis name other than x, y and z. The zero axis makes
  \<^verbatim>\<open>setFromAxisAngle\<close> return \<open>(0, 0, 0, cos (angle / 2))\<close>, which is not a unit quaternion,
  and \<^verbatim>\<open>applyQuaternion\<close> scales the pivot-relative position by \<open>cos\<^sup>2 (angle / 2)\<close>: the mesh
  is moved to the pivot scaled by \<open>1 - cos\<^sup>2 (angle / 2)\<close>.
\<close>

lemma elementMesh_zero_axis:
  assumes "elementMesh setUV el = Inr m" "erotation el = Some r"
    "raxis r \<notin> {''x'', ''y'', ''z''}" "rorigin r = Some (ox, oy, oz)"
  shows "mposition m = ((1 - (cos (rangle r * pi / 180 / 2))\<^sup>2) * ox,
                        (1 - (cos (rangle r * pi / 180 / 2))\<^sup>2) * oy,
                        (1 - (cos (rangle r * pi / 180 / 2))\<^sup>2) * oz) \<and>
         mquaternion m = (0, 0, 0, cos (rangle r * pi / 180 / 2))"
proof -
  have ax: "axisVector (raxis r) = (0, 0, 0)"
    using assms(3) by (rule axisVector_other)
  from assms(1) obtain fx fy fz tx ty tz where
    ft: "efrom el = Some (fx, fy, fz)" "eto el = Some (tx, ty, tz)"
    by (auto simp add: elementMesh_def split: option.splits)
  from assms(1) obtain uvs where uvs: "setUV (efaces el) = Inr uvs"
    by (cases "setUV (efaces el)") (simp_all add: elementMesh_def ft bindE_def Let_def)
  have pos: "mposition m = ((1 - (cos (rangle r * pi / 180 / 2))\<^sup>2) * ox,
                        (1 - (cos (rangle r * pi / 180 / 2))\<^sup>2) * oy,
                        (1 - (cos (rangle r * pi / 180 / 2))\<^sup>2) * oz)"
    using assms(1)
    by (auto simp add: elementMesh_def ft uvs assms(2,4) bindE_def newMesh_def rotateOnAxis_def ax
        vsub_def vadd_def applyAxisAngle_def applyQuaternion_def setFromAxisAngle_def Let_def
        power2_eq_square algebra_simps)
  have q: "mquaternion m = (0, 0, 0, cos (rangle r * pi / 180 / 2))"
    using assms(1)
    by (auto simp add: elementMesh_def ft uvs assms(2,4) bindE_def newMesh_def rotateOnAxis_def ax
        multiplyQuaternions_def setFromAxisAngle_def Let_def)
  from pos q show ?thesis ..
qed

text \<open>
  C4, code bug: the \<^verbatim>\<open>default\<close> branch of the \<^verbatim>\<open>switch\<close> picks the zero vector as the axis of
  an unsupported axis name, which does not make the rotation a no-op. For the element
  \<open>from = [0, 0, 0]\<close>, \<open>to = [2, 2, 2]\<close> with the rotation \<open>angle = 180\<close>, \<open>axis = "w"\<close>,
  \<open>origin = [8, 0, 0]\<close>, the interpreter of either version leaves the mesh at the position
  \<open>(8, 0, 0)\<close> with the quaternion \<open>(0, 0, 0, 0)\<close>; for the same element without rotation
  it leaves the mesh at \<open>(0, 0, 0)\<close> with the quaternion \<open>(0, 0, 0, 1)\<close>.
\<close>

theorem updateModel_unsupported_axis:
  "map (\<lambda>m. (mposition m, mquaternion m))
     (childrenOf (updateModel (Some \<lparr>elements = Some
         [\<lparr>efrom = Some (0, 0, 0), eto = Some (2, 2, 2),
            erotation = Some \<lparr>rangle = 180, raxis = ''w'', rorigin = Some (8, 0, 0)\<rparr>,
            efaces = Some \<lparr>north = Some \<lparr>uv = Some (0, 0, 16, 16), frotation = None\<rparr>,
                       east = Some \<lparr>uv = Some (0, 0, 16, 16), frotation = None\<rparr>,
                       south = Some \<lparr>uv = Some (0, 0, 16, 16), frotation = None\<rparr>,
                       west = Some \<lparr>uv = Some (0, 0, 16, 16), frotation = None\<rparr>,
                       up = Some \<lparr>uv = Some (0, 0, 16, 16), frotation = None\<rparr>,
                       down = Some \<lparr>uv = Some (0, 0, 16, 16), frotation = None\<rparr>\<rparr>\<rparr>]\<rparr>) []))
     = [((8, 0, 0), (0, 0, 0, 0))]
   \<and> map (\<lambda>m. (mposition m, mquaternion m))
     (childrenOf (newJsonModelObjectModelTs (Some \<lparr>elements = Some
         [\<lparr>efrom = Some (0, 0, 0), eto = Some (2, 2, 2),
            erotation = Some \<lparr>rangle = 180, raxis = ''w'', rorigin = Some (8, 0, 0)\<rparr>,
            efaces = Some \<lparr>north = Some \<lparr>uv = Some (0, 0, 16, 16), frotation = None\<rparr>,
                       east = Some \<lparr>uv = Some (0, 0, 16, 16), frotation = None\<rparr>,
                       south = Some \<lparr>uv = Some (0, 0, 16, 16), frotation = None\<rparr>,
                       west = Some \<lparr>uv = Some (0, 0, 16, 16), frotation = None\<rparr>,
                       up = Some \<lparr>uv = Some (0, 0, 16, 16), frotation = None\<rparr>,
                       down = Some \<lparr>uv = Some (0, 0, 16, 16), frotation = None\<rparr>\<rparr>\<rparr>]\<rparr>)))
     = [((8, 0, 0), (0, 0, 0, 0))]
   \<and> map (\<lambda>m. (mposition m, mquaternion m))
     (childrenOf (updateModel (Some \<lparr>elements = Some
         [\<lparr>efrom = Some (0, 0, 0), eto = Some (2, 2, 2), erotation = None,
            efaces = Some \<lparr>north = Some \<lparr>uv = Some (0, 0, 16, 16), frotation = None\<rparr>,
                       east = Some \<lparr>uv = Some (0, 0, 16, 16), frotation = None\<rparr>,
                       south = Some \<lparr>uv = Some (0, 0, 16, 16), frotation = None\<rparr>,
                       west = Some \<lparr>uv = Some (0, 0, 16, 16), frotation = None\<rparr>,
                       up = Some \<lparr>uv = Some (0, 0, 16, 16), frotation = None\<rparr>,
                       down = Some \<lparr>uv = Some (0, 0, 16, 16), frotation = None\<rparr>\<rparr>\<rparr>]\<rparr>) []))
     = [((0, 0, 0), (0, 0, 0, 1))]"
proof -
  obtain uvs where uvs: "setJsonUVs (Some \<lparr>north = Some \<lparr>uv = Some (0, 0, 16, 16), frotation = None\<rparr>,
                       east = Some \<lparr>uv = Some (0, 0, 16, 16), frotation = None\<rparr>,
                       south = Some \<lparr>uv = Some (0, 0, 16, 16), frotation = None\<rparr>,
                       west = Some \<lparr>uv = Some (0, 0, 16, 16), frotation = None\<rparr>,
                       up = Some \<lparr>uv = Some (0, 0, 16, 16), frotation = None\<rparr>,
                       down = Some \<lparr>uv = Some (0, 0, 16, 16), frotation = None\<rparr>\<rparr>) = Inr uvs"
    using setJsonUVs_total [of "the (Some \<lparr>north = Some \<lparr>uv = Some (0, 0, 16, 16), frotation = None\<rparr>,
                       east = Some \<lparr>uv = Some (0, 0, 16, 16), frotation = None\<rparr>,
                       south = Some \<lparr>uv = Some (0, 0, 16, 16), frotation = None\<rparr>,
                       west = Some \<lparr>uv = Some (0, 0, 16, 16), frotation = None\<rparr>,
                       up = Some \<lparr>uv = Some (0, 0, 16, 16), frotation = None\<rparr>,
                       down = Some \<lparr>uv = Some (0, 0, 16, 16), frotation = None\<rparr>\<rparr>)"] by (auto simp add: facesOk_def faceOk_def)
  obtain uvsM where uvsM: "setJsonUVsModelTs (Some \<lparr>north = Some \<lparr>uv = Some (0, 0, 16, 16), frotation = None\<rparr>,
                       east = Some \<lparr>uv = Some (0, 0, 16, 16), frotation = None\<rparr>,
                       south = Some \<lparr>uv = Some (0, 0, 16, 16), frotation = None\<rparr>,
                       west = Some \<lparr>uv = Some (0, 0, 16, 16), frotation = None\<rparr>,
                       up = Some \<lparr>uv = Some (0, 0, 16, 16), frotation = None\<rparr>,
                       down = Some \<lparr>uv = Some (0, 0, 16, 16), frotation = None\<rparr>\<rparr>) = Inr uvsM"
    using setJsonUVsModelTs_total [of "the (Some \<lparr>north = Some \<lparr>uv = Some (0, 0, 16, 16), frotation = None\<rparr>,
                       east = Some \<lparr>uv = Some (0, 0, 16, 16), frotation = None\<rparr>,
                       south = Some \<lparr>uv = Some (0, 0, 16, 16), frotation = None\<rparr>,
                       west = Some \<lparr>uv = Some (0, 0, 16, 16), frotation = None\<rparr>,
                       up = Some \<lparr>uv = Some (0, 0, 16, 16), frotation = None\<rparr>,
                       down = Some \<lparr>uv = Some (0, 0, 16, 16), frotation = None\<rparr>\<rparr>)"] by (auto simp add: facesOk_def faceOk_def)
  show ?thesis
    by (simp add: updateModel_def newJsonModelObjectModelTs_def childrenOf_def elementMesh_def
        uvs uvsM bindE_def newMesh_def rotateOnAxis_def axisVector_def vsub_def vadd_def
        applyAxisAngle_def applyQuaternion_def setFromAxisAngle_def multiplyQuaternions_def
        Let_def)
qed

subsection \<open>Pixel buffers: index arithmetic and the mirrored copy\<close>

lemma idx4_eq: "c < 4 \<Longrightarrow> c' < 4 \<Longrightarrow> (a * 4 + c = b * 4 + c') \<longleftrightarrow> a = b \<and> c = c'" for a b c c' :: nat
  by presburger

lemma rc_eq:
  fixes w :: nat
  assumes "x < w" "x' < w"
  shows "(x + y * w = x' + y' * w) \<longleftrightarrow> x = x' \<and> y = y'"
proof
  assume eq: "x + y * w = x' + y' * w"
  have "(x + y * w) mod w = x" "(x' + y' * w) mod w = x'"
    using assms by simp_all
  with eq have x: "x = x'" by simp
  have "(x + y * w) div w = y" "(x' + y' * w) div w = y'"
    using assms by simp_all
  with eq have "y = y'" by simp
  with x show "x = x' \<and> y = y'" ..
qed simp

text \<open>At a whole-number index the array is an ordinary list.\<close>

lemma u8_get_nat: "u8_get d (real i) = (if i < length d then Some (d ! i) else None)"
  by (simp add: u8_get_def)

lemma u8_set_nat:
  "u8_set d (real i) v = (if i < length d then d[i := (case v of Some b \<Rightarrow> b | None \<Rightarrow> 0)] else d)"
  by (simp add: u8_set_def)

lemma length_u8_set: "length (u8_set d i v) = length d"
  by (simp add: u8_set_def)

lemma toLong_nat: "toLong (real n) = n"
  by (simp add: toLong_def)

lemma loop_bounds: "nat \<lceil>real h\<rceil> = h" "nat \<lceil>real w / 2\<rceil> = (w + 1) div 2"
proof -
  show "nat \<lceil>real h\<rceil> = h" by simp
  have "w = 2 * (w div 2) \<or> w = 2 * (w div 2) + 1" by presburger
  then obtain m where "w = 2 * m \<or> w = 2 * m + 1" ..
  then show "nat \<lceil>real w / 2\<rceil> = (w + 1) div 2"
  proof
    assume w: "w = 2 * m"
    have "real w / 2 = real m" by (simp add: w)
    then show ?thesis by (simp add: w)
  next
    assume w: "w = 2 * m + 1"
    have "\<lceil>real w / 2\<rceil> = int m + 1"
      by (rule ceiling_unique) (simp_all add: w field_simps)
    then show ?thesis by (simp add: w)
  qed
qed

text \<open>One byte written at channel k of pixel a, read at channel c of pixel p.\<close>

lemma set_nth4_gen:
  assumes "c < 4" "k < 4" "a * 4 + k < length d"
  shows "u8_set d (real (a * 4 + k)) (Some v) ! (p * 4 + c)
           = (if p = a \<and> c = k then v else d ! (p * 4 + c))"
proof -
  have eq: "(a * 4 + k = p * 4 + c) = (p = a \<and> c = k)"
    using idx4_eq [of k c a p] assms(1,2) by blast
  have "u8_set d (real (a * 4 + k)) (Some v) = d[a * 4 + k := v]"
    using assms(3) by (simp only: u8_set_nat if_True option.case)
  then show ?thesis
    using assms(3) eq by (simp add: nth_list_update)
qed

lemma set_nth4:
  assumes "c < 4"
  shows "a * 4 < length d \<Longrightarrow>
           u8_set d (real (a * 4)) (Some v) ! (p * 4 + c) = (if p = a \<and> c = 0 then v else d ! (p * 4 + c))"
    and "a * 4 + 1 < length d \<Longrightarrow>
           u8_set d (real (a * 4 + 1)) (Some v) ! (p * 4 + c) = (if p = a \<and> c = 1 then v else d ! (p * 4 + c))"
    and "a * 4 + 2 < length d \<Longrightarrow>
           u8_set d (real (a * 4 + 2)) (Some v) ! (p * 4 + c) = (if p = a \<and> c = 2 then v else d ! (p * 4 + c))"
    and "a * 4 + 3 < length d \<Longrightarrow>
           u8_set d (real (a * 4 + 3)) (Some v) ! (p * 4 + c) = (if p = a \<and> c = 3 then v else d ! (p * 4 + c))"
  using set_nth4_gen [OF assms, of 0 a d v p] apply simp
  using set_nth4_gen [OF assms, of 1 a d v p] apply simp
  using set_nth4_gen [OF assms, of 2 a d v p] apply simp
  using set_nth4_gen [OF assms, of 3 a d v p] apply simp
  done

text \<open>
  For a whole width \<open>w\<close> and a column \<open>x\<close> below it, the two indices of the loop body are
  the whole numbers \<open>a * 4\<close> and \<open>b * 4\<close>, and the body exchanges the pixels \<open>a\<close> and \<open>b\<close>.
\<close>

lemma swapPixels_nth:
  assumes a: "a * 4 + 3 < length d" and b: "b * 4 + 3 < length d"
    and ab: "a = x + y * w" "b = (w - x - 1) + y * w" and xw: "x < w" and c: "c < 4"
  shows "swapPixels (real w) y x d ! (p * 4 + c) =
           (if p = a then d ! (b * 4 + c) else if p = b then d ! (a * 4 + c) else d ! (p * 4 + c))"
proof -
  have c4: "c = 0 \<or> c = 1 \<or> c = 2 \<or> c = 3" using c by auto
  have A: "a * 4 < length d" "a * 4 + 1 < length d" "a * 4 + 2 < length d" "a * 4 + 3 < length d"
    and B: "b * 4 < length d" "b * 4 + 1 < length d" "b * 4 + 2 < length d" "b * 4 + 3 < length d"
    using a b by auto
  have ia: "(real x + real y * real w) * 4 = real (a * 4)"
    by (simp add: ab)
  have ib: "((real w - real x - 1) + real y * real w) * 4 = real (b * 4)"
    using xw by (simp add: ab of_nat_diff)
  have plus: "real (n * 4) + 1 = real (n * 4 + 1)" "real (n * 4) + 2 = real (n * 4 + 2)"
    "real (n * 4) + 3 = real (n * 4 + 3)" for n
    by simp_all
  have g: "u8_get d (real (a * 4)) = Some (d ! (a * 4))"
    "u8_get d (real (a * 4 + 1)) = Some (d ! (a * 4 + 1))"
    "u8_get d (real (a * 4 + 2)) = Some (d ! (a * 4 + 2))"
    "u8_get d (real (a * 4 + 3)) = Some (d ! (a * 4 + 3))"
    "u8_get d (real (b * 4)) = Some (d ! (b * 4))"
    "u8_get d (real (b * 4 + 1)) = Some (d ! (b * 4 + 1))"
    "u8_get d (real (b * 4 + 2)) = Some (d ! (b * 4 + 2))"
    "u8_get d (real (b * 4 + 3)) = Some (d ! (b * 4 + 3))"
    using A B by (simp_all only: u8_get_nat if_True)
  have sw: "swapPixels (real w) y x d =
    u8_set (u8_set (u8_set (u8_set (u8_set (u8_set (u8_set (u8_set d
      (real (a * 4)) (Some (d ! (b * 4)))) (real (a * 4 + 1)) (Some (d ! (b * 4 + 1))))
      (real (a * 4 + 2)) (Some (d ! (b * 4 + 2)))) (real (a * 4 + 3)) (Some (d ! (b * 4 + 3))))
      (real (b * 4)) (Some (d ! (a * 4)))) (real (b * 4 + 1)) (Some (d ! (a * 4 + 1))))
      (real (b * 4 + 2)) (Some (d ! (a * 4 + 2)))) (real (b * 4 + 3)) (Some (d ! (a * 4 + 3)))"
    by (simp only: swapPixels_def Let_def ia ib plus g)
  have "swapPixels (real w) y x d ! (p * 4 + c) =
     (if p = b \<and> c = 3 then d ! (a * 4 + 3) else
      if p = b \<and> c = 2 then d ! (a * 4 + 2) else
      if p = b \<and> c = 1 then d ! (a * 4 + 1) else
      if p = b \<and> c = 0 then d ! (a * 4) else
      if p = a \<and> c = 3 then d ! (b * 4 + 3) else
      if p = a \<and> c = 2 then d ! (b * 4 + 2) else
      if p = a \<and> c = 1 then d ! (b * 4 + 1) else
      if p = a \<and> c = 0 then d ! (b * 4) else d ! (p * 4 + c))"
    by (simp only: sw set_nth4 [OF c] length_u8_set A B)
  then show ?thesis using c4 by auto
qed

lemma length_swapPixels: "length (swapPixels w y x d) = length d"
  by (simp add: swapPixels_def Let_def length_u8_set)

lemma cell_bound:
  fixes x y w h :: nat
  assumes "x < w" "y < h"
  shows "(x + y * w) * 4 + 3 < 4 * w * h"
proof -
  have "Suc y * w \<le> h * w" using assms(2) by (intro mult_le_mono1) simp
  then have "x + y * w < w * h" using assms(1) by (simp add: mult.commute)
  then show ?thesis by simp
qed

lemma flipRow_nth:
  assumes len: "length d = 4 * w * h" and y: "y < h" and n: "n \<le> (w + 1) div 2"
    and x': "x' < w" and y': "y' < h" and c: "c < 4"
  shows "length (fold (\<lambda>x d. swapPixels (real w) y x d) [0..<n] d) = length d \<and>
         fold (\<lambda>x d. swapPixels (real w) y x d) [0..<n] d ! ((x' + y' * w) * 4 + c) =
           (if y' = y \<and> (x' < n \<or> w - 1 - x' < n)
            then d ! (((w - 1 - x') + y * w) * 4 + c)
            else d ! ((x' + y' * w) * 4 + c))"
  using n x' y'
proof (induction n arbitrary: x' y')
  case 0
  then show ?case by simp
next
  case (Suc n)
  let ?r = "fold (\<lambda>x d. swapPixels (real w) y x d) [0..<n] d"
  have nw: "n < w" "n \<le> w - n - 1" "w - n - 1 < w" using Suc.prems(1) by auto
  have n': "n \<le> (w + 1) div 2" using Suc.prems(1) by simp
  note IH = Suc.IH [OF n']
  have lr: "length ?r = length d" using IH [OF Suc.prems(2,3)] by simp
  have a: "(n + y * w) * 4 + 3 < length ?r"
    unfolding lr len using cell_bound [OF nw(1) y] .
  have b: "((w - n - 1) + y * w) * 4 + 3 < length ?r"
    unfolding lr len using cell_bound [OF nw(3) y] .
  have step: "fold (\<lambda>x d. swapPixels (real w) y x d) [0..<Suc n] d = swapPixels (real w) y n ?r"
    by simp
  have ihb: "?r ! (((w - n - 1) + y * w) * 4 + c) = d ! (((w - n - 1) + y * w) * 4 + c)"
    using IH [OF nw(3) y] nw by auto
  have iha: "?r ! ((n + y * w) * 4 + c) = d ! ((n + y * w) * 4 + c)"
    using IH [OF nw(1) y] nw by auto
  have ihp: "?r ! ((x' + y' * w) * 4 + c) =
           (if y' = y \<and> (x' < n \<or> w - 1 - x' < n)
            then d ! (((w - 1 - x') + y * w) * 4 + c)
            else d ! ((x' + y' * w) * 4 + c))"
    using IH [OF Suc.prems(2,3)] by simp
  have pa: "(x' + y' * w = n + y * w) = (x' = n \<and> y' = y)"
    using rc_eq [OF Suc.prems(2) nw(1)] .
  have pb: "(x' + y' * w = (w - n - 1) + y * w) = (x' = w - n - 1 \<and> y' = y)"
    using rc_eq [OF Suc.prems(2) nw(3)] .
  have "swapPixels (real w) y n ?r ! ((x' + y' * w) * 4 + c) =
      (if x' = n \<and> y' = y then d ! (((w - n - 1) + y * w) * 4 + c)
       else if x' = w - n - 1 \<and> y' = y then d ! ((n + y * w) * 4 + c)
       else ?r ! ((x' + y' * w) * 4 + c))"
    unfolding swapPixels_nth [OF a b refl refl nw(1) c] pa pb ihb iha ..
  also have "\<dots> = (if y' = y \<and> (x' < Suc n \<or> w - 1 - x' < Suc n)
            then d ! (((w - 1 - x') + y * w) * 4 + c)
            else d ! ((x' + y' * w) * 4 + c))"
  proof (cases "y' = y")
    case False
    then show ?thesis using ihp by simp
  next
    case True
    consider "x' = n" | "x' = w - n - 1" "x' \<noteq> n" | "x' \<noteq> n" "x' \<noteq> w - n - 1" by blast
    then show ?thesis
    proof cases
      case 1
      then show ?thesis using True nw by simp
    next
      case 2
      moreover have "w - 1 - (w - n - 1) = n" using nw by simp
      ultimately show ?thesis using True nw by simp
    next
      case 3
      then have "(x' < Suc n \<or> w - 1 - x' < Suc n) = (x' < n \<or> w - 1 - x' < n)"
        using Suc.prems(2) by auto
      then show ?thesis using 3 True ihp by simp
    qed
  qed
  finally show ?case
    unfolding step by (simp add: length_swapPixels lr)
qed

lemma mirror_covered: "x' < w \<Longrightarrow> x' < (w + 1) div 2 \<or> w - 1 - x' < (w + 1) div 2" for w :: nat
  by auto

lemma flipHorizontally_nth:
  assumes len: "length d = 4 * w * h" and x': "x' < w" and y': "y' < h" and c: "c < 4"
  shows "flipHorizontally (real w) (real h) d ! ((x' + y' * w) * 4 + c)
           = d ! (((w - 1 - x') + y' * w) * 4 + c)"
proof -
  let ?row = "\<lambda>y d. fold (\<lambda>x d. swapPixels (real w) y x d) [0..<(w + 1) div 2] d"
  have rows: "m \<le> h \<Longrightarrow> x' < w \<Longrightarrow> y' < h \<Longrightarrow>
      length (fold ?row [0..<m] d) = length d \<and>
      fold ?row [0..<m] d ! ((x' + y' * w) * 4 + c) =
        (if y' < m then d ! (((w - 1 - x') + y' * w) * 4 + c) else d ! ((x' + y' * w) * 4 + c))"
    for m x' y'
  proof (induction m arbitrary: x' y')
    case 0
    then show ?case by simp
  next
    case (Suc m)
    let ?r = "fold ?row [0..<m] d"
    have m: "m \<le> h" "m < h" using Suc.prems(1) by auto
    note IH = Suc.IH [OF m(1)]
    have lr: "length ?r = 4 * w * h" using IH [OF Suc.prems(2,3)] len by simp
    have mx: "w - 1 - x' < w" using Suc.prems(2) by simp
    note row = flipRow_nth [OF lr m(2) order_refl Suc.prems(2,3) c]
    have step: "fold ?row [0..<Suc m] d = ?row m ?r" by simp
    have cov: "x' < (w + 1) div 2 \<or> w - 1 - x' < (w + 1) div 2"
      using mirror_covered [OF Suc.prems(2)] .
    show ?case
    proof (cases "y' = m")
      case True
      have "?row m ?r ! ((x' + y' * w) * 4 + c) = ?r ! (((w - 1 - x') + m * w) * 4 + c)"
        using row True cov by simp
      also have "\<dots> = d ! (((w - 1 - x') + m * w) * 4 + c)"
        using IH [OF mx m(2)] by simp
      finally show ?thesis
        unfolding step using True row lr len by simp
    next
      case False
      have "?row m ?r ! ((x' + y' * w) * 4 + c) = ?r ! ((x' + y' * w) * 4 + c)"
        using row False by simp
      also have "\<dots> = (if y' < m then d ! (((w - 1 - x') + y' * w) * 4 + c)
                        else d ! ((x' + y' * w) * 4 + c))"
        using IH [OF Suc.prems(2,3)] by simp
      finally show ?thesis
        unfolding step using False row lr len by (simp add: less_Suc_eq)
    qed
  qed
  show ?thesis
    unfolding flipHorizontally_def loop_bounds using rows [OF order_refl x' y'] y' by simp
qed

lemma readPixels_nth:
  assumes "x < w" "y < h" "k < 4"
  shows "idata (readPixels c sx sy w h) ! ((x + y * w) * 4 + k) = pixelAt c (sx + x) (sy + y) k"
proof -
  have b: "(x + y * w) * 4 + k < 4 * w * h"
    using cell_bound [OF assms(1,2)] assms(3) by simp
  have "(a * 4 + k) div 4 = a \<and> (a * 4 + k) mod 4 = k" for a :: nat
    using assms(3) by presburger
  then have d4: "((x + y * w) * 4 + k) div 4 = x + y * w" "((x + y * w) * 4 + k) mod 4 = k"
    by blast+
  have dw: "(x + y * w) mod w = x" "(x + y * w) div w = y"
    using assms(1) by simp_all
  have "idata (readPixels c sx sy w h) ! i
      = pixelAt c (sx + (i div 4) mod w) (sy + (i div 4) div w) (i mod 4)" if "i < 4 * w * h" for i
    using that by (simp add: readPixels_def)
  from this [OF b] show ?thesis
    by (simp only: d4 dw)
qed

lemma length_readPixels: "length (idata (readPixels c sx sy w h)) = 4 * w * h"
  by (simp add: readPixels_def)

lemma getImageData_nat:
  assumes "0 < w" "0 < h"
  shows "getImageData c (real sx) (real sy) (real w) (real h) = Inr (readPixels c sx sy w h)"
  using assms by (simp add: getImageData_def toLong_nat)

text \<open>
  On whole numbers, and for a rectangle that has pixels, \<^verbatim>\<open>copyImage\<close> with the flip is the
  mirrored copy of the specification.
\<close>

lemma copyImage_mirrorCopy:
  assumes "0 < w" "0 < h"
  shows "copyImage c (real sX) (real sY) (real w) (real h) (real dX) (real dY) True
           = Inr (mirrorCopy c sX sY w h dX dY)"
proof -
  let ?img = "(readPixels c sX sY w h)\<lparr>idata := flipHorizontally (real w) (real h)
                (idata (readPixels c sX sY w h))\<rparr>"
  have ci: "copyImage c (real sX) (real sY) (real w) (real h) (real dX) (real dY) True
      = Inr (writePixels c ?img dX dY)"
    by (simp add: copyImage_def getImageData_nat [OF assms] bindE_def putImageData_def toLong_nat)
  have iw: "iwidth ?img = w" "iheight ?img = h"
    by (simp_all add: readPixels_def)
  have cond: "(dX \<le> x \<and> x < dX + w \<and> dY \<le> y \<and> y < dY + h \<and> k < 4 \<and>
             x < cwidth c \<and> y < cheight c)
     = (inRect dX dY w h x y \<and> k < 4 \<and> x < cwidth c \<and> y < cheight c)" for x y k
    by (simp add: inRect_def)
  have A: "idata ?img ! (((x - dX) + (y - dY) * w) * 4 + k)
      = pixelAt c (sX + (w - 1 - (x - dX))) (sY + (y - dY)) k"
    if C: "inRect dX dY w h x y \<and> k < 4 \<and> x < cwidth c \<and> y < cheight c" for x y k
  proof -
    from C have xy: "x - dX < w" "y - dY < h" "k < 4" by (auto simp: inRect_def)
    have mx: "w - 1 - (x - dX) < w" using xy by simp
    have "idata ?img ! (((x - dX) + (y - dY) * w) * 4 + k)
      = flipHorizontally (real w) (real h) (idata (readPixels c sX sY w h))
          ! (((x - dX) + (y - dY) * w) * 4 + k)"
      by simp
    also have "\<dots> = idata (readPixels c sX sY w h) ! (((w - 1 - (x - dX)) + (y - dY) * w) * 4 + k)"
      by (rule flipHorizontally_nth [OF length_readPixels xy])
    also have "\<dots> = pixelAt c (sX + (w - 1 - (x - dX))) (sY + (y - dY)) k"
      by (rule readPixels_nth [OF mx xy(2,3)])
    finally show ?thesis .
  qed
  have px: "(if dX \<le> x \<and> x < dX + iwidth ?img \<and> dY \<le> y \<and> y < dY + iheight ?img \<and> k < 4 \<and>
             x < cwidth c \<and> y < cheight c
          then idata ?img ! (((x - dX) + (y - dY) * iwidth ?img) * 4 + k)
          else cpix c x y k)
     = (if inRect dX dY w h x y \<and> k < 4 \<and> x < cwidth c \<and> y < cheight c
          then pixelAt c (sX + (w - 1 - (x - dX))) (sY + (y - dY)) k
          else cpix c x y k)" for x y k
    unfolding iw cond
    by (cases "inRect dX dY w h x y \<and> k < 4 \<and> x < cwidth c \<and> y < cheight c")
      (simp_all only: A if_True if_False)
  have "writePixels c ?img dX dY = mirrorCopy c sX sY w h dX dY"
    unfolding writePixels_def mirrorCopy_def px ..
  then show ?thesis by (simp only: ci)
qed

lemma mirrorCopy_pix:
  "cpix (mirrorCopy c sX sY w h dX dY) x y k =
     (if inRect dX dY w h x y \<and> k < 4 \<and> x < cwidth c \<and> y < cheight c
      then pixelAt c (sX + (w - 1 - (x - dX))) (sY + (y - dY)) k
      else cpix c x y k)"
  by (simp add: mirrorCopy_def)

lemma mirrorCopy_dims:
  "cwidth (mirrorCopy c sX sY w h dX dY) = cwidth c"
  "cheight (mirrorCopy c sX sY w h dX dY) = cheight c"
  by (simp_all add: mirrorCopy_def)

lemma applyRules_dims:
  "cwidth (applyRules rs c) = cwidth c \<and> cheight (applyRules rs c) = cheight c"
  by (induction rs arbitrary: c) (auto simp add: applyRules_def mirrorCopy_dims)

lemma pixelAt_mirrorCopy_outside:
  assumes "\<not> inRect dX dY w h x y"
  shows "pixelAt (mirrorCopy c sX sY w h dX dY) x y k = pixelAt c x y k"
  using assms by (simp add: pixelAt_def mirrorCopy_pix mirrorCopy_dims)

lemma applyRules_frame:
  assumes "\<forall>(sX, sY, w, h, dX, dY) \<in> set rs. \<not> inRect dX dY w h x y"
  shows "cpix (applyRules rs c) x y k = cpix c x y k"
  using assms
proof (induction rs arbitrary: c)
  case Nil
  then show ?case by (simp add: applyRules_def)
next
  case (Cons r rs)
  obtain sX sY w h dX dY where r: "r = (sX, sY, w, h, dX, dY)" by (cases r)
  have "cpix (applyRules (r # rs) c) x y k = cpix (applyRules rs (mirrorCopy c sX sY w h dX dY)) x y k"
    by (simp add: applyRules_def r)
  also have "\<dots> = cpix (mirrorCopy c sX sY w h dX dY) x y k"
    using Cons.prems by (intro Cons.IH) simp
  also have "\<dots> = cpix c x y k"
    using Cons.prems by (simp add: mirrorCopy_pix r)
  finally show ?case .
qed

lemma rectsDisjoint_inRect:
  "rectsDisjoint x0 y0 w h x0' y0' w' h' \<Longrightarrow> inRect x0 y0 w h x y \<Longrightarrow> \<not> inRect x0' y0' w' h' x y"
  by (auto simp add: rectsDisjoint_def inRect_def)

lemma applyRules_copy:
  assumes "rulesIndependent rs" "(sX, sY, w, h, dX, dY) \<in> set rs" "inRect dX dY w h x y"
    "k < 4" "x < cwidth c" "y < cheight c"
  shows "cpix (applyRules rs c) x y k = pixelAt c (sX + (w - 1 - (x - dX))) (sY + (y - dY)) k"
  using assms(1,2,5,6)
proof (induction rs arbitrary: c)
  case Nil
  then show ?case by simp
next
  case (Cons r rs)
  obtain sX0 sY0 w0 h0 dX0 dY0 where r: "r = (sX0, sY0, w0, h0, dX0, dY0)" by (cases r)
  let ?c1 = "mirrorCopy c sX0 sY0 w0 h0 dX0 dY0"
  have unf: "applyRules (r # rs) c = applyRules rs ?c1"
    by (simp add: applyRules_def r)
  have ind: "rulesIndependent rs"
    and dis: "\<forall>(sX', sY', w', h', dX', dY') \<in> set rs.
        rectsDisjoint dX0 dY0 w0 h0 dX' dY' w' h' \<and> rectsDisjoint sX' sY' w' h' dX0 dY0 w0 h0"
    using Cons.prems(1) by (auto simp add: r list_all_iff)
  show ?case
  proof (cases "(sX, sY, w, h, dX, dY) = r")
    case True
    then have eq: "sX0 = sX" "sY0 = sY" "w0 = w" "h0 = h" "dX0 = dX" "dY0 = dY"
      using r by auto
    have "\<forall>(sX', sY', w', h', dX', dY') \<in> set rs. \<not> inRect dX' dY' w' h' x y"
      using dis assms(3) rectsDisjoint_inRect unfolding eq by fast
    then have "cpix (applyRules rs ?c1) x y k = cpix ?c1 x y k"
      by (rule applyRules_frame)
    also have "\<dots> = pixelAt c (sX + (w - 1 - (x - dX))) (sY + (y - dY)) k"
      using assms(3,4) Cons.prems(3,4) by (simp add: mirrorCopy_pix eq)
    finally show ?thesis unfolding unf .
  next
    case False
    then have mem: "(sX, sY, w, h, dX, dY) \<in> set rs" using Cons.prems(2) by auto
    have src: "inRect sX sY w h (sX + (w - 1 - (x - dX))) (sY + (y - dY))"
      using assms(3) by (auto simp add: inRect_def)
    have "rectsDisjoint sX sY w h dX0 dY0 w0 h0" using dis mem by fast
    then have out: "\<not> inRect dX0 dY0 w0 h0 (sX + (w - 1 - (x - dX))) (sY + (y - dY))"
      using src by (rule rectsDisjoint_inRect)
    have "cpix (applyRules rs ?c1) x y k = pixelAt ?c1 (sX + (w - 1 - (x - dX))) (sY + (y - dY)) k"
      using Cons.prems(3,4) by (intro Cons.IH [OF ind mem]) (simp_all add: mirrorCopy_dims)
    also have "\<dots> = pixelAt c (sX + (w - 1 - (x - dX))) (sY + (y - dY)) k"
      by (rule pixelAt_mirrorCopy_outside [OF out])
    finally show ?thesis unfolding unf .
  qed
qed

lemma legacyRules_independent: "rulesIndependent legacyRules"
  by (simp add: legacyRules_def rectsDisjoint_def)

text \<open>At width 64 the scale is 1, and each call of \<^verbatim>\<open>copySkin\<close> is one rule.\<close>

lemma copySkin_rule:
  assumes "0 < w" "0 < h"
  shows "copySkin (computeSkinScale 64) c (real sX) (real sY) (real w) (real h) (real dX) (real dY) True
           = Inr (mirrorCopy c sX sY w h dX dY)"
  using copyImage_mirrorCopy [OF assms] by (simp add: copySkin_def computeSkinScale_def)

lemmas copySkin_rules =
  copySkin_rule [of 4 4 _ 4 16 20 48, simplified]
  copySkin_rule [of 4 4 _ 8 16 24 48, simplified]
  copySkin_rule [of 4 12 _ 0 20 24 52, simplified]
  copySkin_rule [of 4 12 _ 4 20 20 52, simplified]
  copySkin_rule [of 4 12 _ 8 20 16 52, simplified]
  copySkin_rule [of 4 12 _ 12 20 28 52, simplified]
  copySkin_rule [of 4 4 _ 44 16 36 48, simplified]
  copySkin_rule [of 4 4 _ 48 16 40 48, simplified]
  copySkin_rule [of 4 12 _ 40 20 40 52, simplified]
  copySkin_rule [of 4 12 _ 44 20 36 52, simplified]
  copySkin_rule [of 4 12 _ 48 20 32 52, simplified]
  copySkin_rule [of 4 12 _ 52 20 44 52, simplified]

lemma convertSkinTo1_8_rules: "convertSkinTo1_8 c 64 = Inr (applyRules legacyRules c)"
  by (simp add: convertSkinTo1_8_def Let_def bindE_def copySkin_rules applyRules_def legacyRules_def)

subsection \<open>Legacy upgrade\<close>

lemma legacyRules_bounds:
  assumes "(sX, sY, w, h, dX, dY) \<in> set legacyRules"
  shows "sX + w \<le> 64 \<and> sY + h \<le> 64 \<and> dX + w \<le> 64 \<and> dY + h \<le> 64 \<and> 0 < w"
  using assms by (auto simp add: legacyRules_def)

text \<open>
  C5, as stated: a pixel buffer of width 64 and height 32, the size of a legacy skin, is a
  pixel buffer of width 64. The upgrade returns, but the twelve destination rectangles lie
  below row 48, outside this buffer, so nothing is written: with every byte of the buffer
  \<open>0xff\<close>, the destination pixel \<open>(20, 48)\<close> of the first rule reads 0 afterwards, while
  the source pixel \<open>(7, 16)\<close> it mirrors is \<open>0xff\<close>.
\<close>

theorem convertSkinTo1_8_legacy_canvas:
  "\<exists>c'. convertSkinTo1_8 \<lparr>cwidth = 64, cheight = 32, cpix = (\<lambda>x y k. 0xff)\<rparr> 64 = Inr c'
     \<and> pixelAt c' (20 + 0) (48 + 0) 0 = 0
     \<and> pixelAt \<lparr>cwidth = 64, cheight = 32, cpix = (\<lambda>x y k. 0xff)\<rparr> (4 + (4 - 1 - 0)) (16 + 0) 0 = 0xff"
  using applyRules_dims [of legacyRules "\<lparr>cwidth = 64, cheight = 32, cpix = (\<lambda>x y k. 0xff)\<rparr>"]
  by (simp add: convertSkinTo1_8_rules pixelAt_def)

text \<open>
  C5, amended: for every pixel buffer of width 64 and height at least 64, the legacy upgrade
  at scale 1 returns, and afterwards each of the twelve destination rectangles reads back as
  the horizontal mirror image of its source rectangle in the original buffer, every pixel
  outside the twelve destination rectangles reads as before, and the size of the buffer is
  unchanged.
\<close>

theorem convertSkinTo1_8_mirrors:
  assumes "cwidth c = 64" "64 \<le> cheight c"
  shows "\<exists>c'. convertSkinTo1_8 c 64 = Inr c' \<and>
         (\<forall>(sX, sY, w, h, dX, dY) \<in> set legacyRules. \<forall>x<w. \<forall>y<h. \<forall>k<4.
            pixelAt c' (dX + x) (dY + y) k = pixelAt c (sX + (w - 1 - x)) (sY + y) k) \<and>
         (\<forall>x y k. \<not> inDestination x y \<longrightarrow> pixelAt c' x y k = pixelAt c x y k) \<and>
         cwidth c' = cwidth c \<and>
         cheight c' = cheight c"
proof (intro exI conjI)
  let ?c' = "applyRules legacyRules c"
  note dims = applyRules_dims [of legacyRules c]
  show "convertSkinTo1_8 c 64 = Inr ?c'" by (rule convertSkinTo1_8_rules)
  show "\<forall>(sX, sY, w, h, dX, dY) \<in> set legacyRules. \<forall>x<w. \<forall>y<h. \<forall>k<4.
            pixelAt ?c' (dX + x) (dY + y) k = pixelAt c (sX + (w - 1 - x)) (sY + y) k"
  proof (clarify)
    fix sX sY w h dX dY x y k :: nat
    assume r: "(sX, sY, w, h, dX, dY) \<in> set legacyRules" and xy: "x < w" "y < h" and k: "k < 4"
    note b = legacyRules_bounds [OF r]
    have inx: "dX + x < cwidth c" and iny: "dY + y < cheight c"
      using b xy assms by auto
    have ir: "inRect dX dY w h (dX + x) (dY + y)"
      using xy by (simp add: inRect_def)
    have "pixelAt ?c' (dX + x) (dY + y) k = cpix ?c' (dX + x) (dY + y) k"
      using inx iny dims by (simp add: pixelAt_def)
    also have "\<dots> = pixelAt c (sX + (w - 1 - (dX + x - dX))) (sY + (dY + y - dY)) k"
      by (rule applyRules_copy [OF legacyRules_independent r ir k inx iny])
    finally show "pixelAt ?c' (dX + x) (dY + y) k = pixelAt c (sX + (w - 1 - x)) (sY + y) k"
      by simp
  qed
  show "\<forall>x y k. \<not> inDestination x y \<longrightarrow> pixelAt ?c' x y k = pixelAt c x y k"
  proof (intro allI impI)
    fix x y k
    assume "\<not> inDestination x y"
    then have "\<forall>(sX, sY, w, h, dX, dY) \<in> set legacyRules. \<not> inRect dX dY w h x y"
      by (auto simp add: inDestination_def list_ex_iff)
    then have "cpix ?c' x y k = cpix c x y k"
      by (rule applyRules_frame)
    then show "pixelAt ?c' x y k = pixelAt c x y k"
      using dims by (simp add: pixelAt_def)
  qed
  show "cwidth ?c' = cwidth c" using dims by simp
  show "cheight ?c' = cheight c" using dims by simp
qed

theorem convertSkinTo1_8_mirrors_witness:
  "\<exists>c'. convertSkinTo1_8 \<lparr>cwidth = 64, cheight = 64, cpix = (\<lambda>x y k. of_nat (x + y))\<rparr> 64 = Inr c'
     \<and> pixelAt c' 20 48 0 = 23 \<and> pixelAt c' 5 5 0 = 10"
  (is "\<exists>c'. convertSkinTo1_8 ?c 64 = Inr c' \<and> _")
proof -
  have h: "cwidth ?c = 64" "64 \<le> cheight ?c" by simp_all
  from convertSkinTo1_8_mirrors [OF h] obtain c' where
    c': "convertSkinTo1_8 ?c 64 = Inr c'"
    and m: "\<forall>(sX, sY, w, h, dX, dY) \<in> set legacyRules. \<forall>x<w. \<forall>y<h. \<forall>k<4.
            pixelAt c' (dX + x) (dY + y) k = pixelAt ?c (sX + (w - 1 - x)) (sY + y) k"
    and f: "\<forall>x y k. \<not> inDestination x y \<longrightarrow> pixelAt c' x y k = pixelAt ?c x y k"
    by blast
  have r: "(4, 16, 4, 4, 20, 48) \<in> set legacyRules" by (simp add: legacyRules_def)
  with m have a: "\<forall>x<4. \<forall>y<4. \<forall>k<4.
            pixelAt c' (20 + x) (48 + y) k = pixelAt ?c (4 + (4 - 1 - x)) (16 + y) k" by fast
  from a [rule_format, of 0 0 0] have 1: "pixelAt c' 20 48 0 = 23"
    by (simp add: pixelAt_def)
  have nd: "\<not> inDestination 5 5" by (simp add: inDestination_def legacyRules_def inRect_def)
  with f have "pixelAt c' 5 5 0 = pixelAt ?c 5 5 0" by blast
  then have 2: "pixelAt c' 5 5 0 = 10"
    by (simp add: pixelAt_def)
  from c' 1 2 show ?thesis by blast
qed

subsection \<open>Slim detector\<close>

text \<open>
  On whole numbers, and for a rectangle that has pixels, \<^verbatim>\<open>hasTransparency\<close> returns whether
  a pixel of the rectangle, as \<^verbatim>\<open>getImageData\<close> reads it, has an alpha byte other than
  \<open>0xff\<close>.
\<close>

lemma hasTransparency_iff:
  assumes "0 < w" "0 < h"
  shows "hasTransparency c (real x0) (real y0) (real w) (real h)
           = Inr (\<exists>x<w. \<exists>y<h. pixelAt c (x0 + x) (y0 + y) 3 \<noteq> 0xff)"
proof -
  let ?d = "idata (readPixels c x0 y0 w h)"
  have idx: "(real x + real y * real w) * 4 + 3 = real ((x + y * w) * 4 + 3)" for x y
    by simp
  have eq: "u8_get ?d (real ((x + y * w) * 4 + 3)) = Some (pixelAt c (x0 + x) (y0 + y) 3)"
    if "x < w" "y < h" for x y
    using cell_bound [OF that] readPixels_nth [OF that, of 3 c x0 y0]
    by (simp only: u8_get_nat length_readPixels if_True)
  have "hasTransparency c (real x0) (real y0) (real w) (real h) =
     Inr (\<exists>x\<in>set [0..<w]. \<exists>y\<in>set [0..<h]. u8_get ?d (real ((x + y * w) * 4 + 3)) \<noteq> Some 0xff)"
    by (simp only: hasTransparency_def getImageData_nat [OF assms] bindE_def sum.case Let_def
        list_ex_iff loop_bounds idx)
  also have "(\<exists>x\<in>set [0..<w]. \<exists>y\<in>set [0..<h]. u8_get ?d (real ((x + y * w) * 4 + 3)) \<noteq> Some 0xff)
      \<longleftrightarrow> (\<exists>x\<in>set [0..<w]. \<exists>y\<in>set [0..<h]. pixelAt c (x0 + x) (y0 + y) 3 \<noteq> 0xff)"
    apply (rule bex_cong [OF refl])
    apply (rule bex_cong [OF refl])
    apply (simp only: eq set_upt atLeastLessThan_iff option.inject)
    done
  also have "\<dots> \<longleftrightarrow> (\<exists>x<w. \<exists>y<h. pixelAt c (x0 + x) (y0 + y) 3 \<noteq> 0xff)"
    by (simp add: Bex_def)
  finally show ?thesis .
qed

lemma checkArea_scale:
  assumes "0 < w" "0 < h" "0 < k"
  shows "checkArea (computeSkinScale (64 * k)) c (real x0) (real y0) (real w) (real h)
           = Inr (\<exists>x<w * k. \<exists>y<h * k. pixelAt c (x0 * k + x) (y0 * k + y) 3 \<noteq> 0xff)"
proof -
  have sc: "real n * computeSkinScale (64 * k) = real (n * k)" for n
    by (simp add: computeSkinScale_def)
  have pos: "0 < w * k" "0 < h * k" using assms by simp_all
  show ?thesis
    by (simp only: checkArea_def sc hasTransparency_iff [OF pos])
qed

lemma orElse_Inr: "orElse (Inr a) (Inr b) = Inr (a \<or> b)"
  by (simp add: orElse_def bindE_def)

lemmas checkArea_probes =
  checkArea_scale [of 2 4 _ _ 50 16, simplified]
  checkArea_scale [of 2 12 _ _ 54 20, simplified]
  checkArea_scale [of 2 4 _ _ 42 48, simplified]
  checkArea_scale [of 2 12 _ _ 46 52, simplified]

text \<open>
  At a width \<open>64 * k\<close> the detector answers whether a pixel of the four scaled probe regions
  reads, through \<^verbatim>\<open>getImageData\<close>, with an alpha byte other than \<open>0xff\<close>; a pixel outside
  the bitmap reads as 0.
\<close>

lemma isSlimSkin_pixelAt:
  assumes "0 < k"
  shows "isSlimSkin c (64 * k) =
           Inr (\<exists>(x0, y0, w, h) \<in> set probeRegions. \<exists>x<w * k. \<exists>y<h * k.
                  pixelAt c (x0 * k + x) (y0 * k + y) 3 \<noteq> 0xff)"
  unfolding isSlimSkin_def Let_def
  by (simp add: checkArea_probes [OF assms] orElse_Inr probeRegions_def)

text \<open>
  C6, as stated: a pixel buffer of width 64 and height 32, the size of a legacy skin, whose
  every byte is \<open>0xff\<close> has no pixel whose alpha byte is not \<open>0xff\<close>, in a probe region or
  elsewhere; the detector answers slim, because the third probe region lies outside the
  buffer and reads as transparent. At width 100, where the scaled regions are not whole
  numbers of pixels, the detector answers slim for the buffer of 100 by 100 pixels whose
  every byte is \<open>0xff\<close>: the loop reads the image data at the index 15.5.
\<close>

theorem isSlimSkin_opaque_slim:
  "isSlimSkin \<lparr>cwidth = 64, cheight = 32, cpix = (\<lambda>x y k. 0xff)\<rparr> 64 = Inr True
   \<and> isSlimSkin \<lparr>cwidth = 100, cheight = 100, cpix = (\<lambda>x y k. 0xff)\<rparr> 100 = Inr True"
proof
  let ?c = "\<lparr>cwidth = 64, cheight = 32, cpix = (\<lambda>x y k. 0xff)\<rparr>"
  have "(42, 48, 2, 4) \<in> set probeRegions" by (simp add: probeRegions_def)
  moreover have "\<exists>x<2 * 1. \<exists>y<4 * 1. pixelAt ?c (42 * 1 + x) (48 * 1 + y) 3 \<noteq> 0xff"
  proof -
    have "pixelAt ?c (42 * 1 + 0) (48 * 1 + 0) 3 \<noteq> 0xff" by (simp add: pixelAt_def)
    moreover have "(0::nat) < 2 * 1" "(0::nat) < 4 * 1" by simp_all
    ultimately show ?thesis by blast
  qed
  ultimately have "\<exists>(x0, y0, w, h) \<in> set probeRegions. \<exists>x<w * 1. \<exists>y<h * 1.
      pixelAt ?c (x0 * 1 + x) (y0 * 1 + y) 3 \<noteq> 0xff"
    by (intro bexI [of _ "(42, 48, 2, 4)"]) simp_all
  then show "isSlimSkin ?c 64 = Inr True"
    using isSlimSkin_pixelAt [of 1 ?c] by simp
next
  let ?c = "\<lparr>cwidth = 100, cheight = 100, cpix = (\<lambda>x y k. 0xff)\<rparr>"
  have sc: "computeSkinScale 100 = 25 / 16" by (simp add: computeSkinScale_def)
  have g: "getImageData ?c (50 * (25 / 16)) (16 * (25 / 16)) (2 * (25 / 16)) (4 * (25 / 16))
      = Inr (readPixels ?c 78 25 3 6)"
    by (simp add: getImageData_def toLong_def)
  have u: "u8_get (idata (readPixels ?c 78 25 3 6)) ((real 0 + real 1 * (2 * (25 / 16))) * 4 + 3) = None"
    by (simp add: u8_get_def)
  have "list_ex (\<lambda>x. list_ex (\<lambda>y.
          u8_get (idata (readPixels ?c 78 25 3 6)) ((real x + real y * (2 * (25 / 16))) * 4 + 3)
            \<noteq> Some 0xff) [0..<nat \<lceil>4 * (25 / 16) :: real\<rceil>]) [0..<nat \<lceil>2 * (25 / 16) :: real\<rceil>]"
    unfolding list_ex_iff
    apply (rule bexI [of _ 0])
     apply (rule bexI [of _ 1])
    using u apply simp
     apply simp
    apply simp
    done
  then have "checkArea (computeSkinScale 100) ?c 50 16 2 4 = Inr True"
    by (simp only: checkArea_def sc hasTransparency_def g bindE_def sum.case Let_def)
  then show "isSlimSkin ?c 100 = Inr True"
    by (simp add: isSlimSkin_def orElse_def bindE_def Let_def)
qed

text \<open>
  C6, amended: for every skin pixel buffer whose width is a positive multiple \<open>64 * k\<close> of
  64 and which holds the whole atlas of that width (at least \<open>64 * k\<close> by \<open>64 * k\<close> pixels),
  the slim detector returns, and answers slim exactly when one of the four probe regions,
  scaled by \<open>k\<close>, contains a pixel whose alpha byte is not \<open>0xff\<close>; with the four regions
  fully opaque it answers classic.
\<close>

theorem isSlimSkin_iff:
  assumes "width = 64 * k" "0 < k" "width \<le> cwidth c" "width \<le> cheight c"
  shows "isSlimSkin c width =
           Inr (\<exists>(x0, y0, w, h) \<in> set probeRegions. \<exists>x<w * k. \<exists>y<h * k.
                  cpix c (x0 * k + x) (y0 * k + y) 3 \<noteq> 0xff)"
proof -
  have px: "pixelAt c (x0 * k + x) (y0 * k + y) 3 = cpix c (x0 * k + x) (y0 * k + y) 3"
    if "(x0, y0, w, h) \<in> set probeRegions" "x < w * k" "y < h * k" for x0 y0 w h x y
  proof -
    have "x0 + w \<le> 64" "y0 + h \<le> 64" using that(1) by (auto simp add: probeRegions_def)
    then have "(x0 + w) * k \<le> 64 * k" "(y0 + h) * k \<le> 64 * k"
      by (simp_all only: mult_le_mono1)
    then have "x0 * k + w * k \<le> cwidth c" "y0 * k + h * k \<le> cheight c"
      using assms by (simp_all add: add_mult_distrib)
    then show ?thesis using that(2,3) by (simp add: pixelAt_def)
  qed
  have "(\<exists>(x0, y0, w, h) \<in> set probeRegions. \<exists>x<w * k. \<exists>y<h * k.
                  pixelAt c (x0 * k + x) (y0 * k + y) 3 \<noteq> 0xff)
      \<longleftrightarrow> (\<exists>(x0, y0, w, h) \<in> set probeRegions. \<exists>x<w * k. \<exists>y<h * k.
                  cpix c (x0 * k + x) (y0 * k + y) 3 \<noteq> 0xff)"
  proof (rule bex_cong [OF refl])
    fix r assume r: "r \<in> set probeRegions"
    obtain x0 y0 w h where t: "r = (x0, y0, w, h)" by (cases r)
    have p: "pixelAt c (x0 * k + x) (y0 * k + y) 3 = cpix c (x0 * k + x) (y0 * k + y) 3"
      if "x \<in> {..<w * k}" "y \<in> {..<h * k}" for x y
      using px [OF r [unfolded t], of x y] that by simp
    have "(\<exists>x\<in>{..<w * k}. \<exists>y\<in>{..<h * k}. pixelAt c (x0 * k + x) (y0 * k + y) 3 \<noteq> 0xff)
        \<longleftrightarrow> (\<exists>x\<in>{..<w * k}. \<exists>y\<in>{..<h * k}. cpix c (x0 * k + x) (y0 * k + y) 3 \<noteq> 0xff)"
      apply (rule bex_cong [OF refl])
      apply (rule bex_cong [OF refl])
      apply (simp only: p)
      done
    then have "(\<exists>x<w * k. \<exists>y<h * k. pixelAt c (x0 * k + x) (y0 * k + y) 3 \<noteq> 0xff)
        \<longleftrightarrow> (\<exists>x<w * k. \<exists>y<h * k. cpix c (x0 * k + x) (y0 * k + y) 3 \<noteq> 0xff)"
      by (simp add: Bex_def)
    then show "(case r of (x0, y0, w, h) \<Rightarrow> \<exists>x<w * k. \<exists>y<h * k.
                  pixelAt c (x0 * k + x) (y0 * k + y) 3 \<noteq> 0xff)
      \<longleftrightarrow> (case r of (x0, y0, w, h) \<Rightarrow> \<exists>x<w * k. \<exists>y<h * k.
                  cpix c (x0 * k + x) (y0 * k + y) 3 \<noteq> 0xff)"
      by (simp add: t)
  qed
  then show ?thesis
    unfolding assms(1) isSlimSkin_pixelAt [OF assms(2)] by simp
qed

theorem isSlimSkin_iff_witness:
  "isSlimSkin \<lparr>cwidth = 64, cheight = 64, cpix = (\<lambda>x y k. 255)\<rparr> 64 = Inr False \<and>
   isSlimSkin \<lparr>cwidth = 64, cheight = 64,
               cpix = (\<lambda>x y k. if x = 47 \<and> y = 60 \<and> k = 3 then 0 else 255)\<rparr> 64 = Inr True"
  (is "isSlimSkin ?opaque 64 = _ \<and> isSlimSkin ?hole 64 = _")
proof
  have "(64::nat) = 64 * 1" "(0::nat) < 1" "64 \<le> cwidth ?opaque" "64 \<le> cheight ?opaque"
    by simp_all
  from isSlimSkin_iff [OF this] show "isSlimSkin ?opaque 64 = Inr False"
    by simp
next
  have h: "(64::nat) = 64 * 1" "(0::nat) < 1" "64 \<le> cwidth ?hole" "64 \<le> cheight ?hole"
    by simp_all
  have "(46, 52, 2, 12) \<in> set probeRegions" by (simp add: probeRegions_def)
  moreover have "\<exists>x<2 * 1. \<exists>y<12 * 1. cpix ?hole (46 * 1 + x) (52 * 1 + y) 3 \<noteq> 0xff"
    by (intro exI [of _ 1] exI [of _ 8]) simp
  ultimately have "\<exists>(x0, y0, w, h) \<in> set probeRegions. \<exists>x<w * 1. \<exists>y<h * 1.
      cpix ?hole (x0 * 1 + x) (y0 * 1 + y) 3 \<noteq> 0xff"
    by (intro bexI [of _ "(46, 52, 2, 12)"]) simp_all
  then show "isSlimSkin ?hole 64 = Inr True"
    unfolding isSlimSkin_iff [OF h] by simp
qed

end
